theory Spec2Isabelle
  imports Main "HOL-Library.Word"
begin

section \<open>Shared vocabulary\<close>

text \<open>
  A Go call either returns or panics. \<open>Returned v\<close> is a normal return of \<open>v\<close>
  (which may itself carry an \<open>error\<close> value, as Go's multiple results do);
  \<open>Panic msg\<close> is \<open>panic(msg)\<close> unwinding out of the call.
\<close>

datatype 'a go_result = Returned 'a | Panic string

text \<open>
  \<open>ecc.ID\<close> of gnark-crypto: the curve identifiers the sources name, and a
  catch-all for every other value of the underlying integer type.
\<close>

datatype ecc_ID = BN254 | BLS12_381 | BLS12_377 | BLS24_317 | BLS24_315 | OtherID nat

section \<open>Package plonk: backend dispatch\<close>

text \<open>
  \<open>constraint.ConstraintSystem\<close> and \<open>kzg.SRS\<close> are interfaces; the dispatch is a
  type switch on the dynamic type. The concrete constraint-system types are the
  per-curve \<open>cs_<curve>.R1CS\<close> and \<open>cs_<curve>.SparseR1CS\<close>, the concrete reference
  strings the per-curve \<open>kzg_<curve>.SRS\<close>. A value of an interface type is either
  the nil interface or a dynamic type tag with its payload.
\<close>

datatype cs_form = R1CS | SparseR1CS

datatype 'c ConstraintSystem = nil_ccs | Concrete ecc_ID cs_form 'c

datatype 's kzg_SRS = nil_srs | SRS_of ecc_ID 's

text \<open>
  \<open>Setup\<close> of package plonk. \<open>plonk_bn254_Setup\<close> is the BN254 implementation it
  delegates to (a parameter: it lives in another package); its result is Go's triple
  (proving key, verifying key, error), \<open>None\<close> standing for nil. The single-result
  type assertion \<open>kzgSRS.(*kzg_bn254.SRS)\<close> panics when the dynamic type differs.
\<close>

definition Setup ::
  "('c \<Rightarrow> 's \<Rightarrow> 'pk option \<times> 'vk option \<times> 'e option)
     \<Rightarrow> 'c ConstraintSystem \<Rightarrow> 's kzg_SRS
     \<Rightarrow> ('pk option \<times> 'vk option \<times> 'e option) go_result" where
  "Setup plonk_bn254_Setup ccs kzgSRS =
     (case ccs of
        Concrete BN254 SparseR1CS tccs \<Rightarrow>
          (case kzgSRS of
             SRS_of BN254 srs \<Rightarrow> Returned (plonk_bn254_Setup tccs srs)
           | _ \<Rightarrow> Panic ''interface conversion: kzg.SRS is not *kzg.SRS'')
      | _ \<Rightarrow> Panic ''unrecognized SparseR1CS curve type'')"

section \<open>Package sw_emulated: stored curve parameters\<close>

record CurveParams =
  A :: int
  B :: int
  Gx :: int
  Gy :: int
  Gm :: "(int \<times> int) list"

text \<open>
  The generators and the precomputed tables come from gnark-crypto and from
  table-building helpers outside these files; they are parameters.
\<close>

record curve_library =
  secp256k1_Generators :: "int \<times> int"
  bn254_Generators :: "int \<times> int"
  computeSecp256k1Table :: "(int \<times> int) list"
  computeBN254Table :: "(int \<times> int) list"

definition GetSecp256k1Params :: "curve_library \<Rightarrow> CurveParams" where
  "GetSecp256k1Params lib =
     \<lparr>A = 0, B = 7,
      Gx = fst (secp256k1_Generators lib), Gy = snd (secp256k1_Generators lib),
      Gm = computeSecp256k1Table lib\<rparr>"

definition GetBN254Params :: "curve_library \<Rightarrow> CurveParams" where
  "GetBN254Params lib =
     \<lparr>A = 0, B = 3,
      Gx = fst (bn254_Generators lib), Gy = snd (bn254_Generators lib),
      Gm = computeBN254Table lib\<rparr>"

text \<open>
  The package variables \<open>secp256k1Params\<close> and \<open>bn254Params\<close>, and the package's
  \<open>init\<close> (here \<open>init_params\<close>), which assigns both before any other function of the
  package can run.
\<close>

record package_vars =
  secp256k1Params :: CurveParams
  bn254Params :: CurveParams

definition init_params :: "curve_library \<Rightarrow> package_vars \<Rightarrow> package_vars" where
  "init_params lib vars =
     (let vars = vars\<lparr>secp256k1Params := GetSecp256k1Params lib\<rparr>;
          vars = vars\<lparr>bn254Params := GetBN254Params lib\<rparr>
      in vars)"

text \<open>
  \<open>(*big.Int).Text(16)\<close>: lower-case hexadecimal without prefix or leading zeros, a
  minus sign for negative values, and \<open><nil>\<close> for a nil pointer.
\<close>

definition hexdigit :: "nat \<Rightarrow> char" where
  "hexdigit d = ''0123456789abcdef'' ! d"

fun hex_nat :: "nat \<Rightarrow> string" where
  "hex_nat n = (if n < 16 then [hexdigit n] else hex_nat (n div 16) @ [hexdigit (n mod 16)])"

declare hex_nat.simps [simp del]

definition Text16 :: "int option \<Rightarrow> string" where
  "Text16 x =
     (case x of
        None \<Rightarrow> ''<nil>''
      | Some v \<Rightarrow> if v < 0 then CHR ''-'' # hex_nat (nat (- v)) else hex_nat (nat v))"

text \<open>
  The type parameter \<open>Base\<close> matters only through its \<open>Modulus()\<close> method, a
  \<open>*big.Int\<close> (\<open>None\<close> for nil).
\<close>

record FieldParams =
  Modulus :: "int option"

definition GetCurveParams :: "package_vars \<Rightarrow> FieldParams \<Rightarrow> CurveParams go_result" where
  "GetCurveParams vars t =
     (let s = Text16 (Modulus t) in
      if s = ''fffffffffffffffffffffffffffffffffffffffffffffffffffffffefffffc2f''
        then Returned (secp256k1Params vars)
      else if s = ''30644e72e131a029b85045b68181585d97816a916871ca8d3c208c16d87cfd47''
        then Returned (bn254Params vars)
      else Panic ''no stored parameters'')"

text \<open>The two base-field moduli, as numbers: \<open>2^256 - 2^32 - 977\<close> and the BN254 prime.\<close>

definition secp256k1_Fp :: int where
  "secp256k1_Fp = 2 ^ 256 - 2 ^ 32 - 977"

definition bn254_Fp :: int where
  "bn254_Fp = 21888242871839275222246405745257275088696311157297823662689037894645226208583"

text \<open>Reading a hexadecimal string back, used to show that \<open>Text16\<close> is injective.\<close>

definition hexval :: "char \<Rightarrow> nat" where
  "hexval c = (if c = CHR ''0'' then 0 else if c = CHR ''1'' then 1 else if c = CHR ''2'' then 2
     else if c = CHR ''3'' then 3 else if c = CHR ''4'' then 4 else if c = CHR ''5'' then 5
     else if c = CHR ''6'' then 6 else if c = CHR ''7'' then 7 else if c = CHR ''8'' then 8
     else if c = CHR ''9'' then 9 else if c = CHR ''a'' then 10 else if c = CHR ''b'' then 11
     else if c = CHR ''c'' then 12 else if c = CHR ''d'' then 13 else if c = CHR ''e'' then 14
     else 15)"

definition unhex :: "string \<Rightarrow> nat" where
  "unhex s = foldl (\<lambda>a c. 16 * a + hexval c) 0 s"

text \<open>
  A library for concrete runs: the standard generators of secp256k1 and of BN254's
  first group, with tables cut down to their first entry.
\<close>

definition sample_library :: curve_library where
  "sample_library =
     \<lparr>secp256k1_Generators =
        (55066263022277343669578718895168534326250603453777594175500187360389116729240,
         32670510020758816978083085130507043184471273380659243275938904335757337482424),
      bn254_Generators = (1, 2),
      computeSecp256k1Table =
        [(55066263022277343669578718895168534326250603453777594175500187360389116729240,
          32670510020758816978083085130507043184471273380659243275938904335757337482424)],
      computeBN254Table = [(1, 2)]\<rparr>"

definition zero_vars :: package_vars where
  "zero_vars =
     \<lparr>secp256k1Params = \<lparr>A = 0, B = 0, Gx = 0, Gy = 0, Gm = []\<rparr>,
      bn254Params = \<lparr>A = 0, B = 0, Gx = 0, Gy = 0, Gm = []\<rparr>\<rparr>"

section \<open>Logging\<close>

text \<open>
  A zerolog event as the sources build it: its level, the error attached with
  \<open>Err\<close>, the \<open>Str\<close> and \<open>Int\<close> fields (\<open>StrField\<close>, \<open>IntField\<close>) in the order they are added, and the message
  (\<open>Send\<close> is the empty message). The global logger of package logger is the list of
  the events sent so far.
\<close>

datatype log_level = WarnLevel | ErrorLevel

datatype log_field = StrField string string | IntField string int

record log_event =
  ev_level :: log_level
  ev_err :: "string option"
  ev_fields :: "log_field list"
  ev_message :: string

text \<open>\<open>(*big.Int).String()\<close> and \<open>%d\<close>: decimal rendering.\<close>

fun dec_nat :: "nat \<Rightarrow> string" where
  "dec_nat n =
     (if n < 10 then [''0123456789'' ! n] else dec_nat (n div 10) @ [''0123456789'' ! (n mod 10)])"

declare dec_nat.simps [simp del]

definition String_big :: "int \<Rightarrow> string" where
  "String_big v = (if v < 0 then CHR ''-'' # dec_nat (nat (- v)) else dec_nat (nat v))"

section \<open>Package eddsa: signature verification as a circuit\<close>

text \<open>
  \<open>frontend.Variable\<close> is an empty interface: a constant (a Go integer or a
  \<open>*big.Int\<close>) or a wire of the circuit under construction.
\<close>

datatype 'w Variable = Constant int | Wire 'w

record 'w Point =
  X :: "'w Variable"
  Y :: "'w Variable"

record 'w PublicKey =
  A_pub :: "'w Point"

record 'w Signature =
  R :: "'w Point"
  S :: "'w Variable"

text \<open>
  The fields of \<open>twistededwards.CurveParams\<close> that \<open>Verify\<close> reads, and the methods
  of the \<open>twistededwards.Curve\<close> interface it calls. Each method adds constraints to
  the circuit being built: it takes the builder's state \<open>'s\<close> and returns the new one
  (with the resulting point where it has one). \<open>API_AssertIsEqual\<close> is
  \<open>curve.API().AssertIsEqual\<close>. The record field \<open>A_pub\<close> is the field \<open>A\<close> of
  \<open>PublicKey\<close>.
\<close>

record te_CurveParams =
  Base :: "int \<times> int"
  Cofactor :: int

record ('w, 's) Curve =
  Params :: te_CurveParams
  Neg :: "'w Point \<Rightarrow> 's \<Rightarrow> 'w Point \<times> 's"
  Add :: "'w Point \<Rightarrow> 'w Point \<Rightarrow> 's \<Rightarrow> 'w Point \<times> 's"
  Double :: "'w Point \<Rightarrow> 's \<Rightarrow> 'w Point \<times> 's"
  DoubleBaseScalarMul ::
    "'w Point \<Rightarrow> 'w Point \<Rightarrow> 'w Variable \<Rightarrow> 'w Variable \<Rightarrow> 's \<Rightarrow> 'w Point \<times> 's"
  AssertIsOnCurve :: "'w Point \<Rightarrow> 's \<Rightarrow> 's"
  API_AssertIsEqual :: "'w Variable \<Rightarrow> 'w Variable \<Rightarrow> 's \<Rightarrow> 's"

text \<open>
  The \<open>hash.Hash\<close> interface: \<open>Write\<close> absorbs a variable, \<open>Sum\<close> (here \<open>Sum_hash\<close>)
  returns the digest. The hash object's own state is part of \<open>'s\<close>.
\<close>

record ('w, 's) Hash =
  Write :: "'w Variable \<Rightarrow> 's \<Rightarrow> 's"
  Sum_hash :: "'s \<Rightarrow> 'w Variable \<times> 's"

text \<open>\<open>(*big.Int).IsUint64\<close> and \<open>Uint64\<close> (the low 64 bits of the absolute value).\<close>

definition IsUint64 :: "int \<Rightarrow> bool" where
  "IsUint64 c = (0 \<le> c \<and> c < 2 ^ 64)"

definition Uint64 :: "int \<Rightarrow> 64 word" where
  "Uint64 c = word_of_int \<bar>c\<bar>"

text \<open>
  The first part of \<open>Verify\<close>'s body, up to and including
  \<open>Q = curve.Add(curve.Neg(Q), sig.R)\<close>: the point that the cofactor clearing is
  applied to, and the builder state reached.
\<close>

definition Verify_lhs_rhs ::
  "('w, 's) Curve \<Rightarrow> 'w Signature \<Rightarrow> 'w Variable \<Rightarrow> 'w PublicKey \<Rightarrow> ('w, 's) Hash
     \<Rightarrow> 's \<Rightarrow> 'w Point \<times> 's" where
  "Verify_lhs_rhs curve sig msg pubKey hash st =
     (let st = Write hash (X (R sig)) st;
          st = Write hash (Y (R sig)) st;
          st = Write hash (X (A_pub pubKey)) st;
          st = Write hash (Y (A_pub pubKey)) st;
          st = Write hash msg st;
          (hRAM, st) = Sum_hash hash st;
          base = \<lparr>X = Constant (fst (Base (Params curve))),
                  Y = Constant (snd (Base (Params curve)))\<rparr>;
          (nA, st) = Neg curve (A_pub pubKey) st;
          (Q, st) = DoubleBaseScalarMul curve base nA (S sig) hRAM st;
          st = AssertIsOnCurve curve Q st;
          (nQ, st) = Neg curve Q st
      in Add curve nQ (R sig) st)"

text \<open>
  \<open>Verify\<close>. The result is the returned error (\<open>None\<close> for nil, otherwise the text of
  the \<open>errors.New\<close> value), the builder state and the global logger.
\<close>

definition Verify ::
  "('w, 's) Curve \<Rightarrow> 'w Signature \<Rightarrow> 'w Variable \<Rightarrow> 'w PublicKey \<Rightarrow> ('w, 's) Hash
     \<Rightarrow> 's \<Rightarrow> log_event list \<Rightarrow> string option \<times> 's \<times> log_event list" where
  "Verify curve sig msg pubKey hash st lg =
     (let (Q, st) = Verify_lhs_rhs curve sig msg pubKey hash st in
      if \<not> IsUint64 (Cofactor (Params curve)) then
        (Some ''invalid cofactor'', st,
         lg @ [\<lparr>ev_level = ErrorLevel, ev_err = Some ''invalid cofactor'',
                ev_fields = [StrField ''cofactor'' (String_big (Cofactor (Params curve)))],
                ev_message = ''''\<rparr>])
      else
        let cofactor = Uint64 (Cofactor (Params curve));
            (Q, st, lg) =
              (if cofactor = 4 then
                 let (Q1, st) = Double curve Q st; (Q2, st) = Double curve Q1 st
                 in (Q2, st, lg)
               else if cofactor = 8 then
                 let (Q1, st) = Double curve Q st; (Q2, st) = Double curve Q1 st;
                     (Q3, st) = Double curve Q2 st
                 in (Q3, st, lg)
               else
                 (Q, st,
                  lg @ [\<lparr>ev_level = WarnLevel, ev_err = None,
                         ev_fields = [StrField ''cofactor'' (String_big (Cofactor (Params curve)))],
                         ev_message = ''curve cofactor is not implemented''\<rparr>]));
            st = API_AssertIsEqual curve (X Q) (Constant 0) st;
            st = API_AssertIsEqual curve (Y Q) (Constant 1) st
        in (None, st, lg))"

text \<open>
  The cofactor clearing as the specification words it: \<open>n\<close> successive doublings.
\<close>

fun doublings :: "nat \<Rightarrow> ('w, 's) Curve \<Rightarrow> 'w Point \<Rightarrow> 's \<Rightarrow> 'w Point \<times> 's" where
  "doublings 0 curve q st = (q, st)"
| "doublings (Suc n) curve q st = (case Double curve q st of (q', st') \<Rightarrow> doublings n curve q' st')"

text \<open>
  A small curve object for concrete runs: the builder state is the list of the calls
  made so far, wires are integers, and the point operations compute on coordinates
  in a fixed toy way.
\<close>

fun coord :: "int Variable \<Rightarrow> int" where
  "coord (Constant c) = c"
| "coord (Wire w) = w"

definition toy_curve :: "int \<Rightarrow> (int, string list) Curve" where
  "toy_curve c =
     \<lparr>Params = \<lparr>Base = (5, 7), Cofactor = c\<rparr>,
      Neg = (\<lambda>p st. (\<lparr>X = Wire (- coord (X p)), Y = Y p\<rparr>, st @ [''Neg''])),
      Add = (\<lambda>p q st. (\<lparr>X = Wire (coord (X p) + coord (X q)),
                          Y = Wire (coord (Y p) + coord (Y q))\<rparr>, st @ [''Add''])),
      Double = (\<lambda>p st. (\<lparr>X = Wire (2 * coord (X p)), Y = Wire (2 * coord (Y p))\<rparr>,
                         st @ [''Double''])),
      DoubleBaseScalarMul = (\<lambda>p q s t st.
         (\<lparr>X = Wire (coord s * coord (X p) + coord t * coord (X q)),
           Y = Wire (coord s * coord (Y p) + coord t * coord (Y q))\<rparr>,
          st @ [''DoubleBaseScalarMul''])),
      AssertIsOnCurve = (\<lambda>p st. st @ [''AssertIsOnCurve'']),
      API_AssertIsEqual = (\<lambda>a b st. st @ [''AssertIsEqual''])\<rparr>"

definition toy_hash :: "(int, string list) Hash" where
  "toy_hash = \<lparr>Write = (\<lambda>v st. st @ [''Write'']), Sum_hash = (\<lambda>st. (Wire 3, st @ [''Sum'']))\<rparr>"

definition toy_sig :: "int Signature" where
  "toy_sig = \<lparr>R = \<lparr>X = Wire 1, Y = Wire 2\<rparr>, S = Wire 4\<rparr>"

definition toy_pubKey :: "int PublicKey" where
  "toy_pubKey = \<lparr>A_pub = \<lparr>X = Wire 6, Y = Wire 8\<rparr>\<rparr>"

text \<open>
  A second curve object for concrete runs, which also records the arguments of
  every call. Points are pairs of integers under componentwise addition, so that
  \<open>Neg\<close>, \<open>Add\<close>, \<open>Double\<close> and \<open>DoubleBaseScalarMul\<close> are the operations of a group;
  the digest of the hash is the sum of what was written.
\<close>

definition pt :: "int \<Rightarrow> int \<Rightarrow> int Point" where
  "pt x y = \<lparr>X = Wire x, Y = Wire y\<rparr>"

definition recording_curve :: "int \<Rightarrow> (int, (string \<times> int list) list) Curve" where
  "recording_curve c =
     \<lparr>Params = \<lparr>Base = (5, 7), Cofactor = c\<rparr>,
      Neg = (\<lambda>p st. (pt (- coord (X p)) (- coord (Y p)),
                      st @ [(''Neg'', [coord (X p), coord (Y p)])])),
      Add = (\<lambda>p q st. (pt (coord (X p) + coord (X q)) (coord (Y p) + coord (Y q)),
                        st @ [(''Add'', [coord (X p), coord (Y p), coord (X q), coord (Y q)])])),
      Double = (\<lambda>p st. (pt (2 * coord (X p)) (2 * coord (Y p)),
                         st @ [(''Double'', [coord (X p), coord (Y p)])])),
      DoubleBaseScalarMul = (\<lambda>p q s t st.
         (pt (coord s * coord (X p) + coord t * coord (X q))
             (coord s * coord (Y p) + coord t * coord (Y q)),
          st @ [(''DoubleBaseScalarMul'',
                 [coord (X p), coord (Y p), coord (X q), coord (Y q), coord s, coord t])])),
      AssertIsOnCurve = (\<lambda>p st. st @ [(''AssertIsOnCurve'', [coord (X p), coord (Y p)])]),
      API_AssertIsEqual = (\<lambda>a b st. st @ [(''AssertIsEqual'', [coord a, coord b])])\<rparr>"

definition recording_hash :: "(int, (string \<times> int list) list) Hash" where
  "recording_hash =
     \<lparr>Write = (\<lambda>v st. st @ [(''Write'', [coord v])]),
      Sum_hash = (\<lambda>st.
         (Wire (sum_list (concat (map snd (filter (\<lambda>e. fst e = ''Write'') st)))),
          st @ [(''Sum'', [])]))\<rparr>"

section \<open>Package solver: options\<close>

text \<open>
  \<open>HintID\<close> is an unsigned integer identifier, \<open>Hint\<close> pairs it with the function.
  The hint functions themselves are opaque values of a type \<open>'f\<close>.
\<close>

type_synonym HintID = "32 word"

record 'f Hint =
  ID :: HintID
  Fn :: 'f

datatype zerolog_Logger = gnark_Logger | zero_Logger | user_Logger nat

text \<open>
  A Go map is a reference: \<open>Config.HintFunctions\<close> holds a reference to a map object,
  or nil (\<open>None\<close>), and two references may designate the same object. The state
  holds the map objects allocated so far (\<open>hint_maps\<close>, by reference; the
  references below \<open>next_ref\<close> are the allocated ones, and \<open>next_ref\<close> is the one
  that the next \<open>make\<close> returns), the reference held by the package-level hint
  registry, and the events sent to the global logger.
\<close>

type_synonym map_ref = nat

record Config =
  HintFunctions :: "map_ref option"
  Logger :: zerolog_Logger

record 'f solver_state =
  hint_maps :: "map_ref \<Rightarrow> (HintID \<rightharpoonup> 'f)"
  next_ref :: map_ref
  registry :: map_ref
  logged :: "log_event list"

text \<open>
  An \<open>Option\<close> is a function on \<open>*Config\<close> returning an error: it takes the
  configuration and the state, and returns the error (\<open>None\<close> for nil) with the
  configuration as it leaves it, or panics.
\<close>

type_synonym 'f Option =
  "Config \<Rightarrow> 'f solver_state \<Rightarrow> (string option \<times> Config) go_result \<times> 'f solver_state"

text \<open>Reading a key of a map reference; a nil map reads as empty.\<close>

definition map_read :: "'f solver_state \<Rightarrow> map_ref option \<Rightarrow> HintID \<Rightarrow> 'f option" where
  "map_read s m k = (case m of None \<Rightarrow> None | Some r \<Rightarrow> hint_maps s r k)"

text \<open>Writing a key; assignment to an entry of a nil map panics.\<close>

definition map_write ::
  "'f solver_state \<Rightarrow> map_ref option \<Rightarrow> HintID \<Rightarrow> 'f \<Rightarrow> unit go_result \<times> 'f solver_state" where
  "map_write s m k v =
     (case m of
        None \<Rightarrow> (Panic ''assignment to entry in nil map'', s)
      | Some r \<Rightarrow> (Returned (), s\<lparr>hint_maps := (hint_maps s)(r := (hint_maps s r)(k \<mapsto> v))\<rparr>))"

definition duplicate_warning :: "'f Hint \<Rightarrow> log_event" where
  "duplicate_warning h =
     \<lparr>ev_level = WarnLevel, ev_err = None,
      ev_fields = [IntField ''hintID'' (uint (ID h)), StrField ''id'' (dec_nat (unat (ID h)))],
      ev_message = ''duplicate hint function''\<rparr>"

text \<open>The loop of \<open>WithHints\<close> over the hints, in order.\<close>

fun WithHints_loop ::
  "'f Hint list \<Rightarrow> Config \<Rightarrow> 'f solver_state \<Rightarrow> unit go_result \<times> 'f solver_state" where
  "WithHints_loop [] opt s = (Returned (), s)"
| "WithHints_loop (h # hs) opt s =
     (let uuid = ID h in
      if map_read s (HintFunctions opt) uuid \<noteq> None then
        WithHints_loop hs opt (s\<lparr>logged := logged s @ [duplicate_warning h]\<rparr>)
      else
        (case map_write s (HintFunctions opt) uuid (Fn h) of
           (Panic m, s') \<Rightarrow> (Panic m, s')
         | (Returned _, s') \<Rightarrow> WithHints_loop hs opt s'))"

definition WithHints :: "'f Hint list \<Rightarrow> 'f Option" where
  "WithHints hintFunctions = (\<lambda>opt s.
     case WithHints_loop hintFunctions opt s of
       (Panic m, s') \<Rightarrow> (Panic m, s')
     | (Returned _, s') \<Rightarrow> (Returned (None, opt), s'))"

definition OverrideHint :: "HintID \<Rightarrow> 'f \<Rightarrow> 'f Option" where
  "OverrideHint hid f = (\<lambda>opt s.
     case map_write s (HintFunctions opt) hid f of
       (Panic m, s') \<Rightarrow> (Panic m, s')
     | (Returned _, s') \<Rightarrow> (Returned (None, opt), s'))"

definition WithLogger :: "zerolog_Logger \<Rightarrow> 'f Option" where
  "WithLogger l = (\<lambda>opt s. (Returned (None, opt\<lparr>Logger := l\<rparr>), s))"

text \<open>
  Modelled from the spec: \<open>GetRegisteredHints\<close> is not among the sources here. The
  specification has the configuration start as a copy of the registry, the copy
  being made by \<open>NewConfig\<close> itself; \<open>GetRegisteredHints\<close> hands out the registry's
  map, which \<open>NewConfig\<close> only ranges over.
\<close>

definition GetRegisteredHints :: "'f solver_state \<Rightarrow> map_ref" where
  "GetRegisteredHints s = registry s"

text \<open>The loop of \<open>NewConfig\<close> over the options; an error returns the zero \<open>Config\<close>.\<close>

fun NewConfig_loop ::
  "'f Option list \<Rightarrow> Config \<Rightarrow> 'f solver_state
     \<Rightarrow> (Config \<times> string option) go_result \<times> 'f solver_state" where
  "NewConfig_loop [] opt s = (Returned (opt, None), s)"
| "NewConfig_loop (option # opts) opt s =
     (case option opt s of
        (Panic m, s') \<Rightarrow> (Panic m, s')
      | (Returned (Some e, opt'), s') \<Rightarrow>
          (Returned (\<lparr>HintFunctions = None, Logger = zero_Logger\<rparr>, Some e), s')
      | (Returned (None, opt'), s') \<Rightarrow> NewConfig_loop opts opt' s')"

text \<open>
  \<open>NewConfig\<close>: \<open>make\<close> allocates a fresh empty map; ranging over the registered
  hints and storing each entry leaves the fresh map with its own entries overridden
  by those of the registry, in whatever order the range visits them.
\<close>

definition NewConfig ::
  "'f Option list \<Rightarrow> 'f solver_state
     \<Rightarrow> (Config \<times> string option) go_result \<times> 'f solver_state" where
  "NewConfig opts s =
     (let log = gnark_Logger;
          r = next_ref s;
          s = s\<lparr>hint_maps := (hint_maps s)(r := Map.empty), next_ref := Suc r\<rparr>;
          opt = \<lparr>HintFunctions = Some r, Logger = log\<rparr>;
          s = s\<lparr>hint_maps :=
                 (hint_maps s)(r := hint_maps s r ++ hint_maps s (GetRegisteredHints s))\<rparr>
      in NewConfig_loop opts opt s)"

text \<open>
  The three options the package provides, as data, and what the specification says
  each does to the configuration's hint map: added hints never replace an entry
  (the first hint of an id wins among new ones), an override always does, the
  logger option leaves the map alone.
\<close>

datatype 'f option_desc =
  WithHints_of "'f Hint list" | OverrideHint_of HintID 'f | WithLogger_of zerolog_Logger

fun the_option :: "'f option_desc \<Rightarrow> 'f Option" where
  "the_option (WithHints_of hs) = WithHints hs"
| "the_option (OverrideHint_of i f) = OverrideHint i f"
| "the_option (WithLogger_of l) = WithLogger l"

definition hints_added :: "'f Hint list \<Rightarrow> (HintID \<rightharpoonup> 'f) \<Rightarrow> (HintID \<rightharpoonup> 'f)" where
  "hints_added hs m = map_of (map (\<lambda>h. (ID h, Fn h)) hs) ++ m"

fun option_effect :: "'f option_desc \<Rightarrow> (HintID \<rightharpoonup> 'f) \<Rightarrow> (HintID \<rightharpoonup> 'f)" where
  "option_effect (WithHints_of hs) m = hints_added hs m"
| "option_effect (OverrideHint_of i f) m = m(i \<mapsto> f)"
| "option_effect (WithLogger_of l) m = m"

fun option_logger :: "'f option_desc \<Rightarrow> zerolog_Logger \<Rightarrow> zerolog_Logger" where
  "option_logger (WithLogger_of l) l0 = l"
| "option_logger _ l0 = l0"

text \<open>
  The hints of a list that \<open>WithHints\<close> reports as duplicates, given the ids
  present before: those whose id is present when their turn comes.
\<close>

fun duplicate_hints :: "HintID set \<Rightarrow> 'f Hint list \<Rightarrow> 'f Hint list" where
  "duplicate_hints seen [] = []"
| "duplicate_hints seen (h # hs) =
     (if ID h \<in> seen then h # duplicate_hints seen hs
      else duplicate_hints (insert (ID h) seen) hs)"

text \<open>A small state for concrete runs: the registry is map 0 and holds hint 1.\<close>

definition toy_solver_state :: "string solver_state" where
  "toy_solver_state =
     \<lparr>hint_maps = (\<lambda>r. if r = 0 then [1 \<mapsto> ''inverse''] else Map.empty),
      next_ref = 1, registry = 0, logged = []\<rparr>"

definition toy_hints :: "string Hint list" where
  "toy_hints = [\<lparr>ID = 1, Fn = ''other''\<rparr>, \<lparr>ID = 2, Fn = ''first''\<rparr>, \<lparr>ID = 2, Fn = ''second''\<rparr>]"

section \<open>Package test: KZG reference strings\<close>

text \<open>
  What \<open>NewKZGSRS\<close> reads of its constraint system: the two counts (Go \<open>int\<close>,
  64 bits) and the field modulus.
\<close>

record cs_view =
  GetNbConstraints :: "64 word"
  GetNbPublicVariables :: "64 word"
  Field_of :: int

text \<open>
  The collaborators outside these files, as parameters: \<open>ecc.NextPowerOfTwo\<close>,
  \<open>utils.FieldToCurve\<close>, the curve's \<open>ScalarField()\<close>, the outcome of the \<open>n\<close>-th
  read of \<open>rand.Reader\<close> by \<open>rand.Int\<close> with a given bound, and the per-curve
  \<open>kzg_<curve>.NewSRS(size, alpha)\<close>, which yields the contents of a new reference
  string or an error.
\<close>

record ('d, 'e) kzg_env =
  NextPowerOfTwo :: "64 word \<Rightarrow> 64 word"
  FieldToCurve :: "int \<Rightarrow> ecc_ID"
  ScalarField :: "ecc_ID \<Rightarrow> int"
  rand_Int :: "nat \<Rightarrow> int \<Rightarrow> 'e + int"
  kzg_NewSRS :: "ecc_ID \<Rightarrow> 64 word \<Rightarrow> int \<Rightarrow> 'e + 'd"

text \<open>
  A reference string is returned by pointer: an instance is its address (the
  instances are numbered as they are allocated) and its contents. The state holds
  the package variable \<open>srsCache\<close>, the number of reads of \<open>rand.Reader\<close> so far and
  the number of instances allocated so far. The calls are sequential; the mutex
  that \<open>getCachedSRS\<close> holds for its whole body has no effect on them.
\<close>

record 'd srs_instance =
  srs_ptr :: nat
  srs_contents :: 'd

record 'd srs_state =
  srsCache :: "ecc_ID \<rightharpoonup> 'd srs_instance"
  rand_reads :: nat
  srs_allocated :: nat

definition srsCachedSize :: "64 word" where
  "srsCachedSize = push_bit 14 1 + 3"

text \<open>One of the calls \<open>kzg_<curve>.NewSRS(kzgSize, alpha)\<close> at the end of \<open>newKZGSRS\<close>.\<close>

definition NewSRS ::
  "('d, 'e) kzg_env \<Rightarrow> ecc_ID \<Rightarrow> 64 word \<Rightarrow> int \<Rightarrow> 'd srs_state
     \<Rightarrow> ('e + 'd srs_instance) go_result \<times> 'd srs_state" where
  "NewSRS env curve kzgSize alpha w =
     (case kzg_NewSRS env curve kzgSize alpha of
        Inl e \<Rightarrow> (Returned (Inl e), w)
      | Inr d \<Rightarrow> (Returned (Inr \<lparr>srs_ptr = srs_allocated w, srs_contents = d\<rparr>),
                  w\<lparr>srs_allocated := Suc (srs_allocated w)\<rparr>))"

definition newKZGSRS ::
  "('d, 'e) kzg_env \<Rightarrow> ecc_ID \<Rightarrow> 64 word \<Rightarrow> 'd srs_state
     \<Rightarrow> ('e + 'd srs_instance) go_result \<times> 'd srs_state" where
  "newKZGSRS env curve kzgSize w =
     (let drawn = rand_Int env (rand_reads w) (ScalarField env curve);
          w = w\<lparr>rand_reads := Suc (rand_reads w)\<rparr>
      in case drawn of
           Inl e \<Rightarrow> (Returned (Inl e), w)
         | Inr alpha \<Rightarrow>
             (case curve of
                BN254 \<Rightarrow> NewSRS env BN254 kzgSize alpha w
              | BLS12_381 \<Rightarrow> NewSRS env BLS12_381 kzgSize alpha w
              | BLS12_377 \<Rightarrow> NewSRS env BLS12_377 kzgSize alpha w
              | BLS24_317 \<Rightarrow> NewSRS env BLS24_317 kzgSize alpha w
              | BLS24_315 \<Rightarrow> NewSRS env BLS24_315 kzgSize alpha w
              | OtherID n \<Rightarrow> (Panic ''unrecognized R1CS curve type'', w)))"

definition getCachedSRS ::
  "('d, 'e) kzg_env \<Rightarrow> cs_view \<Rightarrow> 'd srs_state
     \<Rightarrow> ('e + 'd srs_instance) go_result \<times> 'd srs_state" where
  "getCachedSRS env ccs w =
     (let curveID = FieldToCurve env (Field_of ccs) in
      case srsCache w curveID of
        Some srs \<Rightarrow> (Returned (Inr srs), w)
      | None \<Rightarrow>
          (case newKZGSRS env curveID srsCachedSize w of
             (Panic m, w') \<Rightarrow> (Panic m, w')
           | (Returned (Inl e), w') \<Rightarrow> (Returned (Inl e), w')
           | (Returned (Inr srs), w') \<Rightarrow>
               (Returned (Inr srs), w'\<lparr>srsCache := (srsCache w')(curveID \<mapsto> srs)\<rparr>)))"

definition NewKZGSRS ::
  "('d, 'e) kzg_env \<Rightarrow> cs_view \<Rightarrow> 'd srs_state
     \<Rightarrow> ('e + 'd srs_instance) go_result \<times> 'd srs_state" where
  "NewKZGSRS env ccs w =
     (let nbConstraints = GetNbConstraints ccs;
          sizeSystem = nbConstraints + GetNbPublicVariables ccs;
          kzgSize = NextPowerOfTwo env sizeSystem + 3
      in if kzgSize \<le> srsCachedSize then getCachedSRS env ccs w
         else newKZGSRS env (FieldToCurve env (Field_of ccs)) kzgSize w)"

text \<open>
  The size \<open>NewKZGSRS\<close> requires for a constraint system, as the specification
  writes it, and what it means for an instance to have been generated at a given
  size from the scalar drawn by the \<open>n\<close>-th read of the random source.
\<close>

definition required_size :: "('d, 'e) kzg_env \<Rightarrow> cs_view \<Rightarrow> 64 word" where
  "required_size env ccs =
     NextPowerOfTwo env (GetNbConstraints ccs + GetNbPublicVariables ccs) + 3"

definition generated_at ::
  "('d, 'e) kzg_env \<Rightarrow> ecc_ID \<Rightarrow> 64 word \<Rightarrow> nat \<Rightarrow> 'd srs_instance \<Rightarrow> bool" where
  "generated_at env curve kzgSize n srs =
     (case rand_Int env n (ScalarField env curve) of
        Inl e \<Rightarrow> False
      | Inr alpha \<Rightarrow> kzg_NewSRS env curve kzgSize alpha = Inr (srs_contents srs))"

text \<open>
  Collaborators for concrete runs: the least power of two not below \<open>n\<close>, found by
  doubling; every field is BN254's; the \<open>n\<close>-th random scalar is \<open>n + 5\<close>; the contents
  of a reference string are its size and its scalar.
\<close>

primrec doubling_search :: "nat \<Rightarrow> 64 word \<Rightarrow> 64 word \<Rightarrow> 64 word" where
  "doubling_search 0 n p = p"
| "doubling_search (Suc k) n p = (if n \<le> p then p else doubling_search k n (2 * p))"

definition toy_kzg_env :: "(64 word \<times> int, string) kzg_env" where
  "toy_kzg_env =
     \<lparr>NextPowerOfTwo = (\<lambda>n. doubling_search 63 n 1),
      FieldToCurve = (\<lambda>f. BN254),
      ScalarField = (\<lambda>c. 97),
      rand_Int = (\<lambda>n bound. Inr (int n + 5)),
      kzg_NewSRS = (\<lambda>c kzgSize alpha. Inr (kzgSize, alpha))\<rparr>"

definition toy_srs_state :: "(64 word \<times> int) srs_state" where
  "toy_srs_state = \<lparr>srsCache = Map.empty, rand_reads = 0, srs_allocated = 0\<rparr>"

definition small_cs :: cs_view where
  "small_cs = \<lparr>GetNbConstraints = 10, GetNbPublicVariables = 2, Field_of = 97\<rparr>"

definition other_small_cs :: cs_view where
  "other_small_cs = \<lparr>GetNbConstraints = 100, GetNbPublicVariables = 1, Field_of = 97\<rparr>"

definition large_cs :: cs_view where
  "large_cs = \<lparr>GetNbConstraints = 16384, GetNbPublicVariables = 1, Field_of = 97\<rparr>"

section \<open>Package test: the assertion helper\<close>

text \<open>
  Errors seen in package test: the package's own sentinel values, an error value
  produced by another package (\<open>External\<close>: such a value cannot be one of this
  package's sentinels), \<open>errors.New\<close> of this package, and \<open>fmt.Errorf\<close> with one
  \<open>%w\<close> verb, kept as the text before the wrapped error, the wrapped error and the
  text after it.
\<close>

datatype 'e error =
    ErrCompilationNotDeterministic
  | ErrInvalidWitnessSolvedCS
  | ErrInvalidWitnessVerified
  | External 'e
  | errors_New string
  | Errorf_w string "'e error" string

text \<open>\<open>err.Error()\<close>, given the text of the external errors, and \<open>errors.Is\<close>.\<close>

fun Error_text :: "('e \<Rightarrow> string) \<Rightarrow> 'e error \<Rightarrow> string" where
  "Error_text ext ErrCompilationNotDeterministic = ''compilation is not deterministic''"
| "Error_text ext ErrInvalidWitnessSolvedCS = ''invalid witness solved the constraint system''"
| "Error_text ext ErrInvalidWitnessVerified = ''invalid witness resulted in a valid proof''"
| "Error_text ext (External e) = ext e"
| "Error_text ext (errors_New s) = s"
| "Error_text ext (Errorf_w before e after) = before @ Error_text ext e @ after"

fun errors_Is :: "'e error \<Rightarrow> 'e error \<Rightarrow> bool" where
  "errors_Is (Errorf_w before e after) target =
     (Errorf_w before e after = target \<or> errors_Is e target)"
| "errors_Is e target = (e = target)"

text \<open>
  A call made by a test on its own goroutine returns, or stops the test through
  \<open>FailNow\<close> (with the failure message the code passes), or panics (with an error
  value or with a string).
\<close>

datatype ('e, 'a) outcome = Ret 'a | FailNow string | PanicErr 'e | PanicMsg string

definition bind_outcome ::
  "('e, 'a) outcome \<times> 's \<Rightarrow> ('a \<Rightarrow> 's \<Rightarrow> ('e, 'b) outcome \<times> 's) \<Rightarrow> ('e, 'b) outcome \<times> 's" where
  "bind_outcome m f =
     (case m of
        (Ret x, s) \<Rightarrow> f x s
      | (FailNow msg, s) \<Rightarrow> (FailNow msg, s)
      | (PanicErr e, s) \<Rightarrow> (PanicErr e, s)
      | (PanicMsg msg, s) \<Rightarrow> (PanicMsg msg, s))"

datatype backend_ID = GROTH16 | PLONK | PLONKFRI | other_backend nat

datatype builder = r1cs_NewBuilder | scs_NewBuilder

text \<open>
  A \<open>frontend.Circuit\<close> interface value: whether its dynamic type is a pointer,
  the address \<open>reflect.Value.Pointer\<close> gives, the name of its type, and what it
  points to.
\<close>

record 'c Circuit =
  is_pointer :: bool
  pointer :: nat
  type_string :: string
  content :: 'c

text \<open>The fields of \<open>testingConfig\<close> that the functions below read.\<close>

record ('co, 'so) testingConfig =
  compileOpts :: 'co
  solverOpts :: 'so

text \<open>
  The collaborators outside these files. \<open>Compile n\<close> is the outcome of the \<open>n\<close>-th
  call of \<open>frontend.Compile\<close> made by the test (two calls with equal arguments need
  not agree: that is what \<open>compile\<close> checks). \<open>test_IsSolved\<close> is the test engine's
  \<open>IsSolved\<close>, its last argument telling whether \<open>SetAllVariablesAsConstants()\<close>
  is passed; \<open>ccs_IsSolved\<close> is the method of the compiled constraint system.
  \<open>NewSchema\<close> is \<open>frontend.NewSchema\<close>, \<open>schema_New\<close> is \<open>schema.New\<close> at
  \<open>tVariable\<close>. \<open>curve_number\<close> and \<open>backend_number\<close> are the identifiers as \<open>%d\<close>
  prints them, \<open>curve_String\<close> and \<open>backend_String\<close> their \<open>String()\<close>.
\<close>

record ('c, 'cs, 'e, 'w, 'sc, 'co, 'so) test_env =
  Compile :: "nat \<Rightarrow> int \<Rightarrow> builder \<Rightarrow> 'c Circuit \<Rightarrow> 'co \<Rightarrow> 'e + 'cs"
  DeepEqual :: "'cs \<Rightarrow> 'cs \<Rightarrow> bool"
  scalar_field :: "ecc_ID \<Rightarrow> int"
  test_IsSolved :: "'c Circuit \<Rightarrow> 'c Circuit \<Rightarrow> int \<Rightarrow> bool \<Rightarrow> 'e option"
  ccs_IsSolved :: "'cs \<Rightarrow> 'w \<Rightarrow> 'so \<Rightarrow> 'e option"
  NewWitness :: "'c Circuit \<Rightarrow> int \<Rightarrow> 'e + 'w"
  NewSchema :: "'c Circuit \<Rightarrow> 'e + 'sc"
  schema_New :: "'c Circuit \<Rightarrow> 'e + 'sc"
  ToJSON :: "'w \<Rightarrow> 'sc \<Rightarrow> 'e + string"
  external_text :: "'e \<Rightarrow> string"
  curve_number :: "ecc_ID \<Rightarrow> nat"
  backend_number :: "backend_ID \<Rightarrow> nat"
  curve_String :: "ecc_ID \<Rightarrow> string"
  backend_String :: "backend_ID \<Rightarrow> string"

text \<open>
  What a test has done so far: the compilation cache \<open>assert.compiled\<close>, the number
  of calls of \<open>frontend.Compile\<close>, and the lines written with \<open>assert.Log\<close>.
\<close>

datatype 'e log_line = Log_error string "'e option" | Log_text string string

record ('cs, 'e) test_state =
  compiled :: "string \<rightharpoonup> 'cs"
  compile_calls :: nat
  test_log :: "'e log_line list"

definition getCircuitAddr :: "'c Circuit \<Rightarrow> 'e error + nat" where
  "getCircuitAddr circuit =
     (if \<not> is_pointer circuit
      then Inl (errors_New ''frontend.Circuit methods must be defined on pointer receiver'')
      else Inr (pointer circuit))"

text \<open>The cache key \<open>fmt.Sprintf("%d%d%s%d", curveID, backendID, type, addr)\<close>.\<close>

definition cache_key ::
  "('c, 'cs, 'e, 'w, 'sc, 'co, 'so) test_env \<Rightarrow> ecc_ID \<Rightarrow> backend_ID \<Rightarrow> 'c Circuit \<Rightarrow> nat
     \<Rightarrow> string" where
  "cache_key env curveID backendID circuit addr =
     dec_nat (curve_number env curveID) @ dec_nat (backend_number env backendID)
       @ type_string circuit @ dec_nat addr"

text \<open>The switch of \<open>compile\<close> on the backend; \<open>None\<close> is its panicking default.\<close>

definition newBuilder_for :: "backend_ID \<Rightarrow> builder option" where
  "newBuilder_for backendID =
     (case backendID of
        GROTH16 \<Rightarrow> Some r1cs_NewBuilder
      | PLONK \<Rightarrow> Some scs_NewBuilder
      | PLONKFRI \<Rightarrow> Some scs_NewBuilder
      | other_backend n \<Rightarrow> None)"

definition compile ::
  "('c, 'cs, 'e, 'w, 'sc, 'co, 'so) test_env \<Rightarrow> 'c Circuit \<Rightarrow> ecc_ID \<Rightarrow> backend_ID \<Rightarrow> 'co
     \<Rightarrow> ('cs, 'e) test_state \<Rightarrow> ('e, 'e error + 'cs) outcome \<times> ('cs, 'e) test_state" where
  "compile env circuit curveID backendID opts ts =
     (case getCircuitAddr circuit of
        Inl e \<Rightarrow> (Ret (Inl e), ts)
      | Inr addr \<Rightarrow>
          let key = cache_key env curveID backendID circuit addr in
          (case compiled ts key of
             Some ccs \<Rightarrow> (Ret (Inr ccs), ts)
           | None \<Rightarrow>
               (case newBuilder_for backendID of
                  None \<Rightarrow> (PanicMsg ''not implemented'', ts)
                | Some newBuilder \<Rightarrow>
                    let first = Compile env (compile_calls ts) (scalar_field env curveID)
                                  newBuilder circuit opts;
                        ts = ts\<lparr>compile_calls := Suc (compile_calls ts)\<rparr>
                    in (case first of
                          Inl e \<Rightarrow> (Ret (Inl (External e)), ts)
                        | Inr ccs \<Rightarrow>
                            let second = Compile env (compile_calls ts)
                                           (scalar_field env curveID) newBuilder circuit opts;
                                ts = ts\<lparr>compile_calls := Suc (compile_calls ts)\<rparr>
                            in (case second of
                                  Inl e \<Rightarrow>
                                    (Ret (Inl (Errorf_w '''' ErrCompilationNotDeterministic
                                                 ('': '' @ external_text env e))), ts)
                                | Inr ccs' \<Rightarrow>
                                    if \<not> DeepEqual env ccs ccs'
                                    then (Ret (Inl ErrCompilationNotDeterministic), ts)
                                    else (Ret (Inr ccs),
                                          ts\<lparr>compiled := (compiled ts)(key \<mapsto> ccs)\<rparr>))))))"

text \<open>\<open>lazySchema(circuit)()\<close>: the schema, or a panic when it cannot be parsed.\<close>

definition lazySchema ::
  "('c, 'cs, 'e, 'w, 'sc, 'co, 'so) test_env \<Rightarrow> 'c Circuit \<Rightarrow> ('e, 'sc) outcome" where
  "lazySchema env circuit =
     (case schema_New env circuit of
        Inl e \<Rightarrow> PanicMsg (''couldn't parse schema from circuit: '' @ external_text env e)
      | Inr s \<Rightarrow> Ret s)"

text \<open>
  The text \<open>json\<close> that \<open>mustError\<close> and \<open>checkError\<close> put in their message: the
  witness as JSON, or the text of the error of \<open>ToJSON\<close>.
\<close>

definition witness_json ::
  "('c, 'cs, 'e, 'w, 'sc, 'co, 'so) test_env \<Rightarrow> 'w \<Rightarrow> 'c Circuit \<Rightarrow> ('e, string) outcome" where
  "witness_json env w circuit =
     (case lazySchema env circuit of
        Ret s \<Rightarrow> (case ToJSON env w s of Inl e \<Rightarrow> Ret (external_text env e) | Inr bjson \<Rightarrow> Ret bjson)
      | FailNow msg \<Rightarrow> FailNow msg
      | PanicErr e \<Rightarrow> PanicErr e
      | PanicMsg msg \<Rightarrow> PanicMsg msg)"

text \<open>
  \<open>mustError\<close> and \<open>checkError\<close>, with the circuit whose lazy schema they are given.
  Neither changes the state of the test.
\<close>

definition mustError ::
  "('c, 'cs, 'e, 'w, 'sc, 'co, 'so) test_env \<Rightarrow> 'e error option \<Rightarrow> backend_ID \<Rightarrow> ecc_ID \<Rightarrow> 'w
     \<Rightarrow> 'c Circuit \<Rightarrow> ('e, unit) outcome" where
  "mustError env err backendID curve w circuit =
     (if err \<noteq> None then Ret ()
      else
        (case witness_json env w circuit of
           Ret json \<Rightarrow>
             FailNow (''did not error (but should have) '' @ backend_String env backendID
                        @ ''('' @ curve_String env curve @ '')'' @ [CHR 0x0A] @ ''witness:'' @ json)
         | FailNow msg \<Rightarrow> FailNow msg
         | PanicErr e \<Rightarrow> PanicErr e
         | PanicMsg msg \<Rightarrow> PanicMsg msg))"

definition checkError ::
  "('c, 'cs, 'e, 'w, 'sc, 'co, 'so) test_env \<Rightarrow> 'e error option \<Rightarrow> backend_ID \<Rightarrow> ecc_ID \<Rightarrow> 'w
     \<Rightarrow> 'c Circuit \<Rightarrow> ('e, unit) outcome" where
  "checkError env err backendID curve w circuit =
     (case err of
        None \<Rightarrow> Ret ()
      | Some err' \<Rightarrow>
          let e = Errorf_w (backend_String env backendID @ ''('' @ curve_String env curve @ ''): '')
                    err' ''''
          in (case witness_json env w circuit of
                Ret json \<Rightarrow>
                  FailNow (Error_text (external_text env)
                             (Errorf_w '''' e ([CHR 0x0A] @ ''witness:'' @ json)))
              | FailNow msg \<Rightarrow> FailNow msg
              | PanicErr e \<Rightarrow> PanicErr e
              | PanicMsg msg \<Rightarrow> PanicMsg msg))"

text \<open>
  The error of Go's pair \<open>(ccs, err)\<close> as \<open>compile\<close> returns it (\<open>None\<close> for nil).
\<close>

definition error_of :: "'e error + 'cs \<Rightarrow> 'e error option" where
  "error_of r = (case r of Inl e \<Rightarrow> Some e | Inr ccs \<Rightarrow> None)"

text \<open>
  \<open>solvingSucceeded\<close>: parse the assignment, compile, and require the test engine
  and then the compiled constraint system to accept the witness. When \<open>compile\<close>
  returns an error \<open>checkError\<close> stops the test, so the nil constraint system is never
  used; the model keeps the dereference that would follow as a panic.
\<close>

definition solvingSucceeded ::
  "('c, 'cs, 'e, 'w, 'sc, 'co, 'so) test_env \<Rightarrow> 'c Circuit \<Rightarrow> 'c Circuit \<Rightarrow> backend_ID
     \<Rightarrow> ecc_ID \<Rightarrow> ('co, 'so) testingConfig \<Rightarrow> ('cs, 'e) test_state
     \<Rightarrow> ('e, unit) outcome \<times> ('cs, 'e) test_state" where
  "solvingSucceeded env circuit validAssignment b curve opt ts =
     (case NewWitness env validAssignment (scalar_field env curve) of
        Inl e \<Rightarrow> (FailNow ''can't parse valid assignment'', ts)
      | Inr validWitness \<Rightarrow>
          bind_outcome (compile env circuit curve b (compileOpts opt) ts) (\<lambda>r ts.
          bind_outcome (checkError env (error_of r) b curve validWitness circuit, ts) (\<lambda>_ ts.
          bind_outcome
            (checkError env
               (map_option External
                  (test_IsSolved env circuit validAssignment (scalar_field env curve) False))
               b curve validWitness circuit, ts) (\<lambda>_ ts.
          (case r of
             Inl e \<Rightarrow> (PanicMsg ''invalid memory address or nil pointer dereference'', ts)
           | Inr ccs \<Rightarrow>
               (checkError env
                  (map_option External (ccs_IsSolved env ccs validWitness (solverOpts opt)))
                  b curve validWitness circuit, ts))))))"

definition solvingFailed ::
  "('c, 'cs, 'e, 'w, 'sc, 'co, 'so) test_env \<Rightarrow> 'c Circuit \<Rightarrow> 'c Circuit \<Rightarrow> backend_ID
     \<Rightarrow> ecc_ID \<Rightarrow> ('co, 'so) testingConfig \<Rightarrow> ('cs, 'e) test_state
     \<Rightarrow> ('e, unit) outcome \<times> ('cs, 'e) test_state" where
  "solvingFailed env circuit invalidAssignment b curve opt ts =
     (case NewWitness env invalidAssignment (scalar_field env curve) of
        Inl e \<Rightarrow> (FailNow ''can't parse invalid assignment'', ts)
      | Inr invalidWitness \<Rightarrow>
          bind_outcome (compile env circuit curve b (compileOpts opt) ts) (\<lambda>r ts.
          bind_outcome (checkError env (error_of r) b curve invalidWitness circuit, ts) (\<lambda>_ ts.
          bind_outcome
            (mustError env
               (map_option External
                  (test_IsSolved env circuit invalidAssignment (scalar_field env curve) False))
               b curve invalidWitness circuit, ts) (\<lambda>_ ts.
          (case r of
             Inl e \<Rightarrow> (PanicMsg ''invalid memory address or nil pointer dereference'', ts)
           | Inr ccs \<Rightarrow>
               (mustError env
                  (map_option External (ccs_IsSolved env ccs invalidWitness (solverOpts opt)))
                  b curve invalidWitness circuit, ts))))))"

text \<open>
  The method \<open>fuzzer\<close>. Its first argument, the filler, writes values into the
  assignment \<open>w\<close>, a shallow clone of the circuit: what it leaves in the two objects
  is \<open>fill\<close> of what they held. The result is the returned count with the state of
  the test.
\<close>

definition fuzzer ::
  "('c, 'cs, 'e, 'w, 'sc, 'co, 'so) test_env \<Rightarrow> ('c \<Rightarrow> 'c \<Rightarrow> ecc_ID \<Rightarrow> 'c \<times> 'c)
     \<Rightarrow> 'c Circuit \<Rightarrow> 'c Circuit \<Rightarrow> backend_ID \<Rightarrow> ecc_ID \<Rightarrow> ('co, 'so) testingConfig
     \<Rightarrow> ('cs, 'e) test_state \<Rightarrow> ('e, int) outcome \<times> ('cs, 'e) test_state" where
  "fuzzer env fill circuit w b curve opt ts =
     (let filled = fill (content circuit) (content w) curve;
          circuit = circuit\<lparr>content := fst filled\<rparr>;
          w = w\<lparr>content := snd filled\<rparr>;
          errVars = test_IsSolved env circuit w (scalar_field env curve) False;
          errConsts = test_IsSolved env circuit w (scalar_field env curve) True
      in if (errVars = None) \<noteq> (errConsts = None) then
           (case NewWitness env w (scalar_field env curve) of
              Inl e \<Rightarrow> (PanicErr e, ts)
            | Inr wit \<Rightarrow>
                (case NewSchema env circuit of
                   Inl e \<Rightarrow> (PanicErr e, ts)
                 | Inr s \<Rightarrow>
                     (case ToJSON env wit s of
                        Inl e \<Rightarrow> (PanicErr e, ts)
                      | Inr bb \<Rightarrow>
                          (FailNow ''solving circuit with values as constants vs non-constants mismatched result'',
                           ts\<lparr>test_log := test_log ts
                                @ [Log_error ''errVars'' errVars, Log_error ''errConsts'' errConsts,
                                   Log_text ''fuzzer witness'' bb]\<rparr>))))
         else if errVars = None \<and> errConsts = None then
           bind_outcome (solvingSucceeded env circuit w b curve opt ts) (\<lambda>_ ts. (Ret 1, ts))
         else
           bind_outcome (solvingFailed env circuit w b curve opt ts) (\<lambda>_ ts. (Ret 0, ts)))"

text \<open>
  Collaborators for concrete runs. The circuit's content is a list of integers. The
  test engine rejects, in both modes, every assignment starting with 2, and in
  constant mode also those starting with 0; it accepts all others. Compilation
  always gives the same system, which rejects exactly the witnesses starting with 2.
  The filler \<open>fill_with v\<close> writes \<open>v\<close> everywhere into the assignment.
\<close>

definition toy_test_env :: "(int list, string, string, int list, unit, unit, unit) test_env" where
  "toy_test_env =
     \<lparr>Compile = (\<lambda>n f nb c opts. Inr ''ccs''),
      DeepEqual = (\<lambda>a b. a = b),
      scalar_field = (\<lambda>c. 97),
      test_IsSolved = (\<lambda>c w f consts.
         if take 1 (content w) = [2] then Some ''constraint is not satisfied''
         else if consts \<and> take 1 (content w) = [0] then Some ''constant division by zero''
         else None),
      ccs_IsSolved = (\<lambda>ccs w opts.
         if take 1 w = [2] then Some ''constraint is not satisfied'' else None),
      NewWitness = (\<lambda>w f. Inr (content w)),
      NewSchema = (\<lambda>c. Inr ()),
      schema_New = (\<lambda>c. Inr ()),
      ToJSON = (\<lambda>w s. Inr ''{}''),
      external_text = (\<lambda>e. e),
      curve_number = (\<lambda>c. 1),
      backend_number = (\<lambda>b. 2),
      curve_String = (\<lambda>c. ''bn254''),
      backend_String = (\<lambda>b. ''plonk'')\<rparr>"

definition toy_circuit :: "int list Circuit" where
  "toy_circuit = \<lparr>is_pointer = True, pointer = 4096, type_string = ''*test.circuit'', content = [3]\<rparr>"

definition fill_with :: "int \<Rightarrow> int list \<Rightarrow> int list \<Rightarrow> ecc_ID \<Rightarrow> int list \<times> int list" where
  "fill_with v c w curve = (c, map (\<lambda>x. v) w)"

definition toy_config :: "(unit, unit) testingConfig" where
  "toy_config = \<lparr>compileOpts = (), solverOpts = ()\<rparr>"

definition toy_test_state :: "(string, string) test_state" where
  "toy_test_state = \<lparr>compiled = Map.empty, compile_calls = 0, test_log = []\<rparr>"

text \<open>
  Variations: a second compilation that fails, a witness that cannot be parsed, a
  compiled system that rejects every witness, and one that accepts every witness.
\<close>

definition solver_rejects_all ::
  "(int list, string, string, int list, unit, unit, unit) test_env" where
  "solver_rejects_all = toy_test_env\<lparr>ccs_IsSolved := (\<lambda>ccs w opts. Some ''rejected'')\<rparr>"

definition solver_accepts_all ::
  "(int list, string, string, int list, unit, unit, unit) test_env" where
  "solver_accepts_all = toy_test_env\<lparr>ccs_IsSolved := (\<lambda>ccs w opts. None)\<rparr>"

definition second_compile_fails ::
  "(int list, string, string, int list, unit, unit, unit) test_env" where
  "second_compile_fails =
     toy_test_env\<lparr>Compile := (\<lambda>n f nb c opts. if n = 0 then Inr ''ccs'' else Inl ''out of memory'')\<rparr>"

definition witness_unparsable ::
  "(int list, string, string, int list, unit, unit, unit) test_env" where
  "witness_unparsable = toy_test_env\<lparr>NewWitness := (\<lambda>w f. Inl ''missing assignment'')\<rparr>"

text \<open>The state of the test after the toy circuit has been compiled and cached.\<close>

definition toy_compiled_state :: "(string, string) test_state" where
  "toy_compiled_state =
     \<lparr>compiled = [cache_key toy_test_env BN254 PLONK toy_circuit 4096 \<mapsto> ''ccs''],
      compile_calls = 2, test_log = []\<rparr>"

section \<open>Theorems: package plonk\<close>

lemma Setup_not_bn254:
  "F \<noteq> BN254 \<Longrightarrow>
     Setup impl (Concrete F form c) srs = Panic ''unrecognized SparseR1CS curve type''"
  by (cases F) (simp_all add: Setup_def)

text \<open>
  C2. For every constraint system whose field is not BN254 (the only field with a
  registered implementation), whatever its form and whatever reference string is
  passed, \<open>Setup\<close> panics with "unrecognized SparseR1CS curve type"; in particular it
  returns no triple at all, so never a (nil, nil, error) one.
\<close>

theorem Setup_unsupported_field_panics:
  assumes "F \<noteq> BN254"
  shows "Setup impl (Concrete F form c) srs = Panic ''unrecognized SparseR1CS curve type''
       \<and> (\<forall>t. Setup impl (Concrete F form c) srs \<noteq> Returned t)"
  by (simp add: Setup_not_bn254 [OF assms])

theorem Setup_unsupported_field_panics_witness:
  "BLS12_381 \<noteq> BN254
   \<and> Setup (\<lambda>c s. (None :: nat option, None :: nat option, Some (0 :: nat)))
        (Concrete BLS12_381 SparseR1CS (0 :: nat)) (SRS_of BLS12_381 (0 :: nat))
       = Panic ''unrecognized SparseR1CS curve type''"
  using Setup_unsupported_field_panics
    [of BLS12_381 "\<lambda>c s. (None :: nat option, None :: nat option, Some (0 :: nat))"
        SparseR1CS "0 :: nat" "SRS_of BLS12_381 (0 :: nat)"]
  by simp

section \<open>Theorems: package sw_emulated\<close>

lemma digit_cases:
  "d < 16 \<Longrightarrow> d = 0 \<or> d = 1 \<or> d = 2 \<or> d = 3 \<or> d = 4 \<or> d = 5 \<or> d = 6 \<or> d = 7
     \<or> d = 8 \<or> d = 9 \<or> d = 10 \<or> d = 11 \<or> d = 12 \<or> d = 13 \<or> d = 14 \<or> d = (15::nat)"
  by arith

lemma hexval_hexdigit: "d < 16 \<Longrightarrow> hexval (hexdigit d) = d"
  by (drule digit_cases, elim disjE) (simp_all add: hexdigit_def hexval_def)

lemma hexdigit_in: "d < 16 \<Longrightarrow> hexdigit d \<in> set ''0123456789abcdef''"
  by (drule digit_cases, elim disjE) (simp_all add: hexdigit_def)

lemma unhex_snoc: "unhex (s @ [c]) = 16 * unhex s + hexval c"
  by (simp add: unhex_def)

lemma unhex_hex_nat: "unhex (hex_nat n) = n"
proof (induction n rule: hex_nat.induct)
  case (1 n)
  show ?case
  proof (cases "n < 16")
    case True
    then show ?thesis
      by (subst hex_nat.simps) (simp add: unhex_def hexval_hexdigit)
  next
    case False
    with 1 have "unhex (hex_nat (n div 16)) = n div 16" by simp
    with False show ?thesis
      by (subst hex_nat.simps) (simp add: unhex_snoc hexval_hexdigit)
  qed
qed

lemma hex_nat_chars: "set (hex_nat n) \<subseteq> set ''0123456789abcdef''"
proof (induction n rule: hex_nat.induct)
  case (1 n)
  show ?case
  proof (cases "n < 16")
    case True
    then show ?thesis
      using hexdigit_in [of n] by (subst hex_nat.simps) simp
  next
    case False
    with 1 have "set (hex_nat (n div 16)) \<subseteq> set ''0123456789abcdef''" by simp
    with False show ?thesis
      using hexdigit_in [of "n mod 16"] by (subst hex_nat.simps) simp
  qed
qed

lemma hex_nat_no_minus: "CHR ''-'' \<notin> set (hex_nat n)"
  using hex_nat_chars [of n] by auto

lemma hex_nat_not_nil: "hex_nat n \<noteq> ''<nil>''"
proof
  assume "hex_nat n = ''<nil>''"
  then have "CHR ''<'' \<in> set (hex_nat n)" by simp
  with hex_nat_chars [of n] show False by auto
qed

lemma unhex_secp: "unhex ''fffffffffffffffffffffffffffffffffffffffffffffffffffffffefffffc2f'' = nat secp256k1_Fp"
  by (simp add: unhex_def hexval_def secp256k1_Fp_def)

lemma unhex_bn: "unhex ''30644e72e131a029b85045b68181585d97816a916871ca8d3c208c16d87cfd47'' = nat bn254_Fp"
  by (simp add: unhex_def hexval_def bn254_Fp_def)

lemma hex_secp: "hex_nat (nat secp256k1_Fp) = ''fffffffffffffffffffffffffffffffffffffffffffffffffffffffefffffc2f''"
  by (simp add: secp256k1_Fp_def hex_nat.simps hexdigit_def)

lemma hex_bn: "hex_nat (nat bn254_Fp) = ''30644e72e131a029b85045b68181585d97816a916871ca8d3c208c16d87cfd47''"
  by (simp add: bn254_Fp_def hex_nat.simps hexdigit_def)

lemma Text16_eq_iff:
  assumes "unhex s = nat c" "hex_nat (nat c) = s" "0 \<le> c"
  shows "Text16 m = s \<longleftrightarrow> m = Some c"
proof
  assume "m = Some c"
  with assms show "Text16 m = s" by (simp add: Text16_def)
next
  assume eq: "Text16 m = s"
  have nm: "CHR ''-'' \<notin> set s" using hex_nat_no_minus [of "nat c"] assms(2) by simp
  show "m = Some c"
  proof (cases m)
    case None
    with eq have "s = ''<nil>''" by (simp add: Text16_def)
    with assms(2) show ?thesis using hex_nat_not_nil [of "nat c"] by simp
  next
    case (Some v)
    show ?thesis
    proof (cases "v < 0")
      case True
      with eq Some have "CHR ''-'' \<in> set s" by (auto simp: Text16_def)
      with nm show ?thesis by simp
    next
      case False
      with eq Some have "hex_nat (nat v) = s" by (simp add: Text16_def)
      then have "unhex (hex_nat (nat v)) = unhex s" by simp
      then have "nat v = nat c" using assms(1) by (simp add: unhex_hex_nat)
      with False assms(3) Some show ?thesis by simp
    qed
  qed
qed

lemma GetCurveParams_dispatch:
  "GetCurveParams vars t =
     (if Modulus t = Some secp256k1_Fp then Returned (secp256k1Params vars)
      else if Modulus t = Some bn254_Fp then Returned (bn254Params vars)
      else Panic ''no stored parameters'')"
proof -
  have a: "Text16 (Modulus t) = ''fffffffffffffffffffffffffffffffffffffffffffffffffffffffefffffc2f''
        \<longleftrightarrow> Modulus t = Some secp256k1_Fp"
    by (rule Text16_eq_iff [OF unhex_secp hex_secp]) (simp add: secp256k1_Fp_def)
  have b: "Text16 (Modulus t) = ''30644e72e131a029b85045b68181585d97816a916871ca8d3c208c16d87cfd47''
        \<longleftrightarrow> Modulus t = Some bn254_Fp"
    by (rule Text16_eq_iff [OF unhex_bn hex_bn]) (simp add: bn254_Fp_def)
  show ?thesis
    unfolding GetCurveParams_def Let_def a b by (rule refl)
qed

lemma init_params_vars:
  "secp256k1Params (init_params lib vars) = GetSecp256k1Params lib"
  "bn254Params (init_params lib vars) = GetBN254Params lib"
  by (simp_all add: init_params_def Let_def)

text \<open>
  C10. Once \<open>init\<close> has run (whatever the package variables held before),
  \<open>GetCurveParams\<close> returns the stored secp256k1 parameters, \<open>a = 0\<close>, \<open>b = 7\<close>, the
  secp256k1 generator and the secp256k1 table, when the modulus of the
  field-parameter type is the secp256k1 base-field modulus; the stored BN254
  parameters, \<open>a = 0\<close>, \<open>b = 3\<close>, the BN254 generator and the BN254 table, when it is
  the BN254 base-field modulus; and panics with "no stored parameters" for every
  other modulus (a nil modulus included). So it returns exactly when the modulus is
  one of the two.
\<close>

theorem GetCurveParams_stored_or_panics:
  "GetCurveParams (init_params lib vars) t =
     (if Modulus t = Some secp256k1_Fp then
        Returned \<lparr>A = 0, B = 7,
                  Gx = fst (secp256k1_Generators lib), Gy = snd (secp256k1_Generators lib),
                  Gm = computeSecp256k1Table lib\<rparr>
      else if Modulus t = Some bn254_Fp then
        Returned \<lparr>A = 0, B = 3,
                  Gx = fst (bn254_Generators lib), Gy = snd (bn254_Generators lib),
                  Gm = computeBN254Table lib\<rparr>
      else Panic ''no stored parameters'')
   \<and> ((\<exists>p. GetCurveParams (init_params lib vars) t = Returned p)
        \<longleftrightarrow> (Modulus t = Some secp256k1_Fp \<or> Modulus t = Some bn254_Fp))"
  by (simp add: GetCurveParams_dispatch init_params_vars GetSecp256k1Params_def
        GetBN254Params_def)

theorem GetCurveParams_stored_or_panics_witness:
  "GetCurveParams (init_params sample_library zero_vars) \<lparr>Modulus = Some (2 ^ 256 - 2 ^ 32 - 977)\<rparr>
     = Returned \<lparr>A = 0, B = 7,
         Gx = 55066263022277343669578718895168534326250603453777594175500187360389116729240,
         Gy = 32670510020758816978083085130507043184471273380659243275938904335757337482424,
         Gm = [(55066263022277343669578718895168534326250603453777594175500187360389116729240,
                32670510020758816978083085130507043184471273380659243275938904335757337482424)]\<rparr>
   \<and> GetCurveParams (init_params sample_library zero_vars)
        \<lparr>Modulus = Some 21888242871839275222246405745257275088696311157297823662689037894645226208583\<rparr>
     = Returned \<lparr>A = 0, B = 3, Gx = 1, Gy = 2, Gm = [(1, 2)]\<rparr>
   \<and> GetCurveParams (init_params sample_library zero_vars) \<lparr>Modulus = Some 97\<rparr>
     = Panic ''no stored parameters''
   \<and> GetCurveParams (init_params sample_library zero_vars) \<lparr>Modulus = None\<rparr>
     = Panic ''no stored parameters''"
  using GetCurveParams_stored_or_panics
          [of sample_library zero_vars "\<lparr>Modulus = Some (2 ^ 256 - 2 ^ 32 - 977)\<rparr>"]
        GetCurveParams_stored_or_panics
          [of sample_library zero_vars
              "\<lparr>Modulus = Some 21888242871839275222246405745257275088696311157297823662689037894645226208583\<rparr>"]
        GetCurveParams_stored_or_panics [of sample_library zero_vars "\<lparr>Modulus = Some 97\<rparr>"]
        GetCurveParams_stored_or_panics [of sample_library zero_vars "\<lparr>Modulus = None\<rparr>"]
  by (simp add: secp256k1_Fp_def bn254_Fp_def sample_library_def)

section \<open>Theorems: package eddsa\<close>

lemma uint_Uint64: "IsUint64 c \<Longrightarrow> uint (Uint64 c) = c"
  unfolding IsUint64_def Uint64_def
  by (simp add: uint_word_of_int_eq take_bit_int_eq_self)

lemma Uint64_4: "IsUint64 c \<Longrightarrow> (Uint64 c = 4) = (c = 4)"
proof -
  assume c: "IsUint64 c"
  have "(Uint64 c = 4) = (uint (Uint64 c) = uint (4 :: 64 word))"
    by (simp only: word_uint_eq_iff)
  then show ?thesis using uint_Uint64 [OF c] by simp
qed

lemma Uint64_8: "IsUint64 c \<Longrightarrow> (Uint64 c = 8) = (c = 8)"
proof -
  assume c: "IsUint64 c"
  have "(Uint64 c = 8) = (uint (Uint64 c) = uint (8 :: 64 word))"
    by (simp only: word_uint_eq_iff)
  then show ?thesis using uint_Uint64 [OF c] by simp
qed

text \<open>
  C1. When the curve's cofactor fits in a uint64, \<open>Verify\<close> returns nil after the
  following calls, in this order: the five writes of \<open>R.X\<close>, \<open>R.Y\<close>, \<open>A.X\<close>, \<open>A.Y\<close> and
  the message into the hash and its \<open>Sum\<close>, giving \<open>h\<close>; \<open>Neg\<close> of the public key \<open>A\<close>;
  \<open>DoubleBaseScalarMul\<close> of the base point \<open>G\<close> and \<open>-A\<close> by \<open>S\<close> and \<open>h\<close>, giving
  \<open>Q = [S]G - [h]A\<close>; the assertion that \<open>Q\<close> is on the curve; \<open>Neg\<close> of \<open>Q\<close> and
  \<open>Add\<close> of \<open>-Q\<close> and \<open>R\<close>, giving \<open>Q' = R - Q\<close>; then exactly two doublings of \<open>Q'\<close> if
  the cofactor is 4, exactly three if it is 8, and none otherwise (then the point
  and the builder state are left as they are and one warning is logged); and finally
  the assertions that the resulting point has \<open>X = 0\<close> and then \<open>Y = 1\<close>.
\<close>

theorem Verify_cofactor_clearing:
  assumes "IsUint64 (Cofactor (Params curve))"
  shows "Verify curve sig msg pubKey hash st lg =
     (let st1 = Write hash (X (R sig)) st;
          st2 = Write hash (Y (R sig)) st1;
          st3 = Write hash (X (A_pub pubKey)) st2;
          st4 = Write hash (Y (A_pub pubKey)) st3;
          st5 = Write hash msg st4;
          (h, st6) = Sum_hash hash st5;
          g = \<lparr>X = Constant (fst (Base (Params curve))),
               Y = Constant (snd (Base (Params curve)))\<rparr>;
          (minus_a, st7) = Neg curve (A_pub pubKey) st6;
          (q, st8) = DoubleBaseScalarMul curve g minus_a (S sig) h st7;
          st9 = AssertIsOnCurve curve q st8;
          (minus_q, st10) = Neg curve q st9;
          (q', st11) = Add curve minus_q (R sig) st10;
          c = Cofactor (Params curve);
          (qc, st12) = doublings (if c = 4 then 2 else if c = 8 then 3 else 0) curve q' st11
      in (None,
          API_AssertIsEqual curve (Y qc) (Constant 1)
            (API_AssertIsEqual curve (X qc) (Constant 0) st12),
          if c = 4 \<or> c = 8 then lg
          else lg @ [\<lparr>ev_level = WarnLevel, ev_err = None,
                       ev_fields = [StrField ''cofactor'' (String_big c)],
                       ev_message = ''curve cofactor is not implemented''\<rparr>]))"
  using assms
  by (simp add: Verify_def Verify_lhs_rhs_def Uint64_4 Uint64_8 Let_def numeral_2_eq_2
        numeral_3_eq_3 split: prod.splits)

lemma recording_sel:
  "Params (recording_curve c) = \<lparr>Base = (5, 7), Cofactor = c\<rparr>"
  "Neg (recording_curve c) p st
     = (pt (- coord (X p)) (- coord (Y p)), st @ [(''Neg'', [coord (X p), coord (Y p)])])"
  "Add (recording_curve c) p q st
     = (pt (coord (X p) + coord (X q)) (coord (Y p) + coord (Y q)),
        st @ [(''Add'', [coord (X p), coord (Y p), coord (X q), coord (Y q)])])"
  "Double (recording_curve c) p st
     = (pt (2 * coord (X p)) (2 * coord (Y p)), st @ [(''Double'', [coord (X p), coord (Y p)])])"
  "DoubleBaseScalarMul (recording_curve c) p q s t st
     = (pt (coord s * coord (X p) + coord t * coord (X q))
           (coord s * coord (Y p) + coord t * coord (Y q)),
        st @ [(''DoubleBaseScalarMul'',
               [coord (X p), coord (Y p), coord (X q), coord (Y q), coord s, coord t])])"
  "AssertIsOnCurve (recording_curve c) p st
     = st @ [(''AssertIsOnCurve'', [coord (X p), coord (Y p)])]"
  "API_AssertIsEqual (recording_curve c) a b st = st @ [(''AssertIsEqual'', [coord a, coord b])]"
  "Write recording_hash v st = st @ [(''Write'', [coord v])]"
  "Sum_hash recording_hash st
     = (Wire (sum_list (concat (map snd (filter (\<lambda>e. fst e = ''Write'') st)))),
        st @ [(''Sum'', [])])"
  by (simp_all add: recording_curve_def recording_hash_def)

theorem Verify_cofactor_clearing_witness:
  "IsUint64 (Cofactor (Params (recording_curve 8)))
   \<and> Verify (recording_curve 8) toy_sig (Wire 9) toy_pubKey recording_hash [] [] =
       (None,
        [(''Write'', [1]), (''Write'', [2]), (''Write'', [6]), (''Write'', [8]), (''Write'', [9]),
         (''Sum'', []),
         (''Neg'', [6, 8]),
         (''DoubleBaseScalarMul'', [5, 7, - 6, - 8, 4, 26]),
         (''AssertIsOnCurve'', [4 * 5 - 26 * 6, 4 * 7 - 26 * 8]),
         (''Neg'', [4 * 5 - 26 * 6, 4 * 7 - 26 * 8]),
         (''Add'', [- (4 * 5 - 26 * 6), - (4 * 7 - 26 * 8), 1, 2]),
         (''Double'', [1 - (4 * 5 - 26 * 6), 2 - (4 * 7 - 26 * 8)]),
         (''Double'', [2 * (1 - (4 * 5 - 26 * 6)), 2 * (2 - (4 * 7 - 26 * 8))]),
         (''Double'', [4 * (1 - (4 * 5 - 26 * 6)), 4 * (2 - (4 * 7 - 26 * 8))]),
         (''AssertIsEqual'', [8 * (1 - (4 * 5 - 26 * 6)), 0]),
         (''AssertIsEqual'', [8 * (2 - (4 * 7 - 26 * 8)), 1])],
        [])
   \<and> IsUint64 (Cofactor (Params (recording_curve 4)))
   \<and> snd (Verify (recording_curve 4) toy_sig (Wire 9) toy_pubKey recording_hash [] []) =
       ([(''Write'', [1]), (''Write'', [2]), (''Write'', [6]), (''Write'', [8]), (''Write'', [9]),
         (''Sum'', []),
         (''Neg'', [6, 8]),
         (''DoubleBaseScalarMul'', [5, 7, - 6, - 8, 4, 26]),
         (''AssertIsOnCurve'', [- 136, - 180]),
         (''Neg'', [- 136, - 180]),
         (''Add'', [136, 180, 1, 2]),
         (''Double'', [137, 182]),
         (''Double'', [274, 364]),
         (''AssertIsEqual'', [548, 0]),
         (''AssertIsEqual'', [728, 1])],
        [])
   \<and> IsUint64 (Cofactor (Params (recording_curve 2)))
   \<and> snd (Verify (recording_curve 2) toy_sig (Wire 9) toy_pubKey recording_hash [] []) =
       ([(''Write'', [1]), (''Write'', [2]), (''Write'', [6]), (''Write'', [8]), (''Write'', [9]),
         (''Sum'', []),
         (''Neg'', [6, 8]),
         (''DoubleBaseScalarMul'', [5, 7, - 6, - 8, 4, 26]),
         (''AssertIsOnCurve'', [- 136, - 180]),
         (''Neg'', [- 136, - 180]),
         (''Add'', [136, 180, 1, 2]),
         (''AssertIsEqual'', [137, 0]),
         (''AssertIsEqual'', [182, 1])],
        [\<lparr>ev_level = WarnLevel, ev_err = None,
          ev_fields = [StrField ''cofactor'' ''2''],
          ev_message = ''curve cofactor is not implemented''\<rparr>])"
proof -
  have h8: "IsUint64 (Cofactor (Params (recording_curve 8)))"
    and h4: "IsUint64 (Cofactor (Params (recording_curve 4)))"
    and h2: "IsUint64 (Cofactor (Params (recording_curve 2)))"
    by (simp_all add: IsUint64_def recording_sel)
  have d: "String_big 2 = ''2''"
    by (simp add: String_big_def dec_nat.simps)
  show ?thesis
    using h8 h4 h2
      Verify_cofactor_clearing [OF h8, of toy_sig "Wire 9" toy_pubKey recording_hash "[]" "[]"]
      Verify_cofactor_clearing [OF h4, of toy_sig "Wire 9" toy_pubKey recording_hash "[]" "[]"]
      Verify_cofactor_clearing [OF h2, of toy_sig "Wire 9" toy_pubKey recording_hash "[]" "[]"]
    by (simp add: recording_sel pt_def toy_sig_def toy_pubKey_def d numeral_2_eq_2
          numeral_3_eq_3)
qed

text \<open>
  C9. When the curve's cofactor does not fit in a uint64, \<open>Verify\<close> returns the error
  "invalid cofactor" (a returned value), logs it at error level, and leaves the
  builder in the state reached after \<open>Q' = R - Q\<close>: no doubling and no identity
  assertion is made, and the outcome does not depend on what \<open>Double\<close> and
  \<open>AssertIsEqual\<close> would do.
\<close>

theorem Verify_invalid_cofactor:
  assumes "\<not> IsUint64 (Cofactor (Params curve))"
  shows "Verify curve sig msg pubKey hash st lg =
       (Some ''invalid cofactor'',
        snd (Verify_lhs_rhs curve sig msg pubKey hash st),
        lg @ [\<lparr>ev_level = ErrorLevel, ev_err = Some ''invalid cofactor'',
                ev_fields = [StrField ''cofactor'' (String_big (Cofactor (Params curve)))],
                ev_message = ''''\<rparr>])
     \<and> Verify (curve\<lparr>Double := dbl, API_AssertIsEqual := aeq\<rparr>) sig msg pubKey hash st lg =
       Verify curve sig msg pubKey hash st lg"
  using assms
  by (simp add: Verify_def Verify_lhs_rhs_def Let_def split: prod.splits)

theorem Verify_invalid_cofactor_witness:
  "\<not> IsUint64 (Cofactor (Params (toy_curve (2 ^ 64))))
   \<and> Verify (toy_curve (2 ^ 64)) toy_sig (Wire 9) toy_pubKey toy_hash [] [] =
       (Some ''invalid cofactor'',
        [''Write'', ''Write'', ''Write'', ''Write'', ''Write'', ''Sum'', ''Neg'',
         ''DoubleBaseScalarMul'', ''AssertIsOnCurve'', ''Neg'', ''Add''],
        [\<lparr>ev_level = ErrorLevel, ev_err = Some ''invalid cofactor'',
          ev_fields = [StrField ''cofactor'' (String_big (2 ^ 64))], ev_message = ''''\<rparr>])"
proof -
  have h: "\<not> IsUint64 (Cofactor (Params (toy_curve (2 ^ 64))))"
    by (simp add: IsUint64_def toy_curve_def)
  show ?thesis
    using h Verify_invalid_cofactor [OF h, of toy_sig "Wire 9" toy_pubKey toy_hash "[]" "[]"]
    by (simp add: Verify_lhs_rhs_def toy_curve_def toy_hash_def toy_sig_def toy_pubKey_def)
qed

section \<open>Theorems: package solver\<close>

lemma hints_added_absent:
  "m (ID h) = None \<Longrightarrow> hints_added hs (m(ID h \<mapsto> Fn h)) = hints_added (h # hs) m"
  by (auto simp: hints_added_def map_add_def fun_eq_iff split: option.splits)

lemma hints_added_present:
  "m (ID h) = Some f \<Longrightarrow> hints_added hs m = hints_added (h # hs) m"
  by (auto simp: hints_added_def map_add_def fun_eq_iff split: option.splits)

lemma WithHints_loop_result:
  "HintFunctions opt = Some r \<Longrightarrow>
   WithHints_loop hs opt s =
     (Returned (),
      s\<lparr>hint_maps := (hint_maps s)(r := hints_added hs (hint_maps s r)),
        logged := logged s @ map duplicate_warning (duplicate_hints (dom (hint_maps s r)) hs)\<rparr>)"
proof (induction hs arbitrary: s)
  case Nil
  then show ?case by (simp add: hints_added_def)
next
  case (Cons h hs)
  show ?case
  proof (cases "hint_maps s r (ID h)")
    case None
    define s1 where "s1 = s\<lparr>hint_maps := (hint_maps s)(r := (hint_maps s r)(ID h \<mapsto> Fn h))\<rparr>"
    have step: "WithHints_loop (h # hs) opt s = WithHints_loop hs opt s1"
      using Cons.prems None by (simp add: map_read_def map_write_def Let_def s1_def)
    have hm: "hint_maps s1 r = (hint_maps s r)(ID h \<mapsto> Fn h)" and lg: "logged s1 = logged s"
      by (simp_all add: s1_def)
    have d: "duplicate_hints (dom (hint_maps s r)) (h # hs)
             = duplicate_hints (dom (hint_maps s1 r)) hs"
      using None by (simp add: hm domIff)
    have r: "s1\<lparr>hint_maps := (hint_maps s1)(r := hints_added (h # hs) (hint_maps s r)), logged := l\<rparr>
           = s\<lparr>hint_maps := (hint_maps s)(r := hints_added (h # hs) (hint_maps s r)), logged := l\<rparr>" for l
      by (simp add: s1_def)
    show ?thesis
      unfolding step Cons.IH [OF Cons.prems] d hm lg hints_added_absent [of "hint_maps s r" h hs, OF None] r ..
  next
    case (Some f)
    define s1 where "s1 = s\<lparr>logged := logged s @ [duplicate_warning h]\<rparr>"
    have step: "WithHints_loop (h # hs) opt s = WithHints_loop hs opt s1"
      using Cons.prems Some by (simp add: map_read_def Let_def s1_def)
    have hm: "hint_maps s1 = hint_maps s" and lg: "logged s1 = logged s @ [duplicate_warning h]"
      by (simp_all add: s1_def)
    have d: "logged s @ map duplicate_warning (duplicate_hints (dom (hint_maps s r)) (h # hs))
             = (logged s @ [duplicate_warning h])
               @ map duplicate_warning (duplicate_hints (dom (hint_maps s r)) hs)"
      using Some by (simp add: domIff)
    have r: "s1\<lparr>hint_maps := hm, logged := l\<rparr> = s\<lparr>hint_maps := hm, logged := l\<rparr>" for hm l
      by (simp add: s1_def)
    show ?thesis
      unfolding step Cons.IH [OF Cons.prems] d hm lg hints_added_present [of "hint_maps s r" h f hs, OF Some, symmetric] r ..
  qed
qed





lemma the_option_effect:
  assumes "HintFunctions opt = Some r"
  shows "\<exists>opt' s'. the_option d opt s = (Returned (None, opt'), s')
     \<and> HintFunctions opt' = Some r
     \<and> Logger opt' = option_logger d (Logger opt)
     \<and> hint_maps s' = (hint_maps s)(r := option_effect d (hint_maps s r))
     \<and> next_ref s' = next_ref s \<and> registry s' = registry s"
proof (cases d)
  case (WithHints_of hs)
  then show ?thesis
    using assms by (simp add: WithHints_def WithHints_loop_result [OF assms])
next
  case (OverrideHint_of i f)
  then show ?thesis
    using assms by (simp add: OverrideHint_def map_write_def)
next
  case (WithLogger_of l)
  then show ?thesis
    using assms by (simp add: WithLogger_def)
qed

lemma NewConfig_loop_effect:
  "HintFunctions opt = Some r \<Longrightarrow>
   \<exists>opt' s'. NewConfig_loop (map the_option ds) opt s = (Returned (opt', None), s')
     \<and> HintFunctions opt' = Some r
     \<and> Logger opt' = fold option_logger ds (Logger opt)
     \<and> hint_maps s' = (hint_maps s)(r := fold option_effect ds (hint_maps s r))
     \<and> next_ref s' = next_ref s \<and> registry s' = registry s"
proof (induction ds arbitrary: opt s)
  case Nil
  then show ?case by simp
next
  case (Cons d ds)
  from the_option_effect [OF Cons.prems, of d s]
  obtain opt1 s1 where
    st: "the_option d opt s = (Returned (None, opt1), s1)" and
    h1: "HintFunctions opt1 = Some r" and
    l1: "Logger opt1 = option_logger d (Logger opt)" and
    m1: "hint_maps s1 = (hint_maps s)(r := option_effect d (hint_maps s r))" and
    n1: "next_ref s1 = next_ref s" and r1: "registry s1 = registry s"
    by blast
  from Cons.IH [OF h1, of s1]
  obtain opt2 s2 where
    st2: "NewConfig_loop (map the_option ds) opt1 s1 = (Returned (opt2, None), s2)" and
    h2: "HintFunctions opt2 = Some r" and
    l2: "Logger opt2 = fold option_logger ds (Logger opt1)" and
    m2: "hint_maps s2 = (hint_maps s1)(r := fold option_effect ds (hint_maps s1 r))" and
    n2: "next_ref s2 = next_ref s1" and r2: "registry s2 = registry s1"
    by blast
  have "NewConfig_loop (map the_option (d # ds)) opt s = (Returned (opt2, None), s2)"
    using st st2 by simp
  moreover have "hint_maps s2 = (hint_maps s)(r := fold option_effect (d # ds) (hint_maps s r))"
    using m1 m2 by simp
  moreover have "Logger opt2 = fold option_logger (d # ds) (Logger opt)"
    using l1 l2 by simp
  ultimately show ?case
    using h2 n1 n2 r1 r2 by (intro exI [of _ opt2] exI [of _ s2] conjI) simp_all
qed

text \<open>
  C8. In a state where the registry's map is one of the maps already allocated,
  \<open>NewConfig\<close> with any list of the package's options (\<open>WithHints\<close>,
  \<open>OverrideHint\<close>, \<open>WithLogger\<close>) returns a configuration whose hint map is freshly
  allocated and holds the registry's entries with the options applied in order;
  every map that existed before the call, the registry's among them, has the
  contents it had, and the registry variable designates the same map.
\<close>

theorem NewConfig_copies_registry_and_preserves_it:
  assumes "registry s < next_ref s"
  shows "\<exists>cfg s'. NewConfig (map the_option ds) s = (Returned (cfg, None), s')
     \<and> HintFunctions cfg = Some (next_ref s)
     \<and> Logger cfg = fold option_logger ds gnark_Logger
     \<and> hint_maps s' (next_ref s) = fold option_effect ds (hint_maps s (registry s))
     \<and> (\<forall>r. r \<noteq> next_ref s \<longrightarrow> hint_maps s' r = hint_maps s r)
     \<and> registry s' = registry s
     \<and> hint_maps s' (registry s') = hint_maps s (registry s)"
proof -
  define r where "r = next_ref s"
  define s0 where
    "s0 = s\<lparr>next_ref := Suc r, hint_maps := (hint_maps s)(r := hint_maps s (registry s))\<rparr>"
  define opt where "opt = \<lparr>HintFunctions = Some r, Logger = gnark_Logger\<rparr>"
  have ne: "registry s \<noteq> r" using assms by (simp add: r_def)
  have nc: "NewConfig (map the_option ds) s = NewConfig_loop (map the_option ds) opt s0"
    using ne by (simp add: NewConfig_def Let_def GetRegisteredHints_def r_def s0_def opt_def)
  have ho: "HintFunctions opt = Some r" by (simp add: opt_def)
  from NewConfig_loop_effect [OF ho, of ds s0]
  obtain cfg s' where
    st: "NewConfig_loop (map the_option ds) opt s0 = (Returned (cfg, None), s')" and
    h: "HintFunctions cfg = Some r" and
    l: "Logger cfg = fold option_logger ds (Logger opt)" and
    m: "hint_maps s' = (hint_maps s0)(r := fold option_effect ds (hint_maps s0 r))" and
    g: "registry s' = registry s0"
    by blast
  have m0: "hint_maps s0 r = hint_maps s (registry s)" by (simp add: s0_def)
  have others: "\<forall>q. q \<noteq> r \<longrightarrow> hint_maps s' q = hint_maps s q"
    by (simp add: m s0_def)
  have g0: "registry s' = registry s" using g by (simp add: s0_def)
  have "hint_maps s' (registry s') = hint_maps s (registry s)"
    using others ne g0 by simp
  moreover have "hint_maps s' r = fold option_effect ds (hint_maps s (registry s))"
    by (simp add: m m0)
  moreover have "Logger cfg = fold option_logger ds gnark_Logger"
    using l by (simp add: opt_def)
  ultimately show ?thesis
    using nc st h others g0 unfolding r_def by auto
qed

theorem NewConfig_copies_registry_and_preserves_it_witness:
  "registry toy_solver_state < next_ref toy_solver_state
   \<and> (\<exists>cfg s'. NewConfig (map the_option [WithHints_of toy_hints, OverrideHint_of 1 ''over''])
                    toy_solver_state = (Returned (cfg, None), s')
        \<and> HintFunctions cfg = Some 1
        \<and> hint_maps s' 1 1 = Some ''over'' \<and> hint_maps s' 1 2 = Some ''first''
        \<and> hint_maps s' 0 1 = Some ''inverse'' \<and> hint_maps s' 0 2 = None)"
proof -
  have h: "registry toy_solver_state < next_ref toy_solver_state"
    by (simp add: toy_solver_state_def)
  from NewConfig_copies_registry_and_preserves_it
         [OF h, of "[WithHints_of toy_hints, OverrideHint_of 1 ''over'']"]
  obtain cfg s' where
    "NewConfig (map the_option [WithHints_of toy_hints, OverrideHint_of 1 ''over''])
       toy_solver_state = (Returned (cfg, None), s')"
    "HintFunctions cfg = Some (next_ref toy_solver_state)"
    "hint_maps s' (next_ref toy_solver_state) =
       fold option_effect [WithHints_of toy_hints, OverrideHint_of 1 ''over'']
         (hint_maps toy_solver_state (registry toy_solver_state))"
    "\<forall>r. r \<noteq> next_ref toy_solver_state \<longrightarrow> hint_maps s' r = hint_maps toy_solver_state r"
    by blast
  then show ?thesis
    using h
    by (simp add: toy_solver_state_def toy_hints_def hints_added_def map_add_def)
qed

section \<open>Theorems: package test, KZG reference strings\<close>

lemma srsCachedSize_value: "srsCachedSize = 16387"
  by (simp add: srsCachedSize_def)

lemma NewKZGSRS_small:
  "required_size env ccs \<le> srsCachedSize \<Longrightarrow> NewKZGSRS env ccs w = getCachedSRS env ccs w"
  by (simp add: NewKZGSRS_def required_size_def Let_def)

lemma NewKZGSRS_large:
  "srsCachedSize < required_size env ccs \<Longrightarrow>
   NewKZGSRS env ccs w =
     newKZGSRS env (FieldToCurve env (Field_of ccs)) (required_size env ccs) w"
  by (simp add: NewKZGSRS_def required_size_def Let_def not_le [symmetric])

lemma NewSRS_Returned:
  "NewSRS env curve kzgSize alpha w = (Returned (Inr srs), w') \<Longrightarrow>
   kzg_NewSRS env curve kzgSize alpha = Inr (srs_contents srs)
   \<and> srs_ptr srs = srs_allocated w
   \<and> w' = w\<lparr>srs_allocated := Suc (srs_allocated w)\<rparr>"
  by (auto simp: NewSRS_def split: sum.splits)

lemma newKZGSRS_Returned:
  assumes "newKZGSRS env curve kzgSize w = (Returned (Inr srs), w')"
  shows "generated_at env curve kzgSize (rand_reads w) srs
     \<and> srs_ptr srs = srs_allocated w
     \<and> w' = w\<lparr>rand_reads := Suc (rand_reads w), srs_allocated := Suc (srs_allocated w)\<rparr>"
proof (cases "rand_Int env (rand_reads w) (ScalarField env curve)")
  case (Inl e)
  with assms show ?thesis by (simp add: newKZGSRS_def Let_def)
next
  case (Inr alpha)
  with assms have
    "NewSRS env curve kzgSize alpha (w\<lparr>rand_reads := Suc (rand_reads w)\<rparr>)
       = (Returned (Inr srs), w')"
    by (cases curve) (simp_all add: newKZGSRS_def Let_def)
  from NewSRS_Returned [OF this] Inr show ?thesis
    by (simp add: generated_at_def)
qed

lemma NewSRS_cache: "srsCache (snd (NewSRS env curve kzgSize alpha w)) = srsCache w"
  by (simp add: NewSRS_def split: sum.splits)

lemma newKZGSRS_cache: "srsCache (snd (newKZGSRS env curve kzgSize w)) = srsCache w"
  by (cases curve)
     (simp_all add: newKZGSRS_def Let_def NewSRS_cache split: sum.splits)

lemma NewSRS_any_cache:
  "fst (NewSRS env curve kzgSize alpha (w\<lparr>srsCache := c\<rparr>))
     = fst (NewSRS env curve kzgSize alpha w)"
  by (simp add: NewSRS_def split: sum.splits)

lemma NewSRS_any_cache':
  "fst (NewSRS env curve kzgSize alpha (w\<lparr>srsCache := c, rand_reads := n\<rparr>))
     = fst (NewSRS env curve kzgSize alpha (w\<lparr>rand_reads := n\<rparr>))"
  by (simp add: NewSRS_def split: sum.splits)

lemma newKZGSRS_any_cache:
  "fst (newKZGSRS env curve kzgSize (w\<lparr>srsCache := c\<rparr>)) = fst (newKZGSRS env curve kzgSize w)"
  by (cases curve)
     (simp_all add: newKZGSRS_def Let_def NewSRS_any_cache' split: sum.splits)

lemma getCachedSRS_hit:
  "srsCache w (FieldToCurve env (Field_of ccs)) = Some srs \<Longrightarrow>
   getCachedSRS env ccs w = (Returned (Inr srs), w)"
  by (simp add: getCachedSRS_def)

lemma getCachedSRS_miss:
  "srsCache w (FieldToCurve env (Field_of ccs)) = None \<Longrightarrow>
   getCachedSRS env ccs w =
     (case newKZGSRS env (FieldToCurve env (Field_of ccs)) srsCachedSize w of
        (Returned (Inr srs), w') \<Rightarrow>
          (Returned (Inr srs),
           w'\<lparr>srsCache := (srsCache w')(FieldToCurve env (Field_of ccs) \<mapsto> srs)\<rparr>)
      | other \<Rightarrow> other)"
  by (simp add: getCachedSRS_def Let_def split: prod.splits go_result.splits sum.splits)

lemma getCachedSRS_Returned:
  assumes "getCachedSRS env ccs w = (Returned (Inr srs), w')"
  shows "srsCache w' (FieldToCurve env (Field_of ccs)) = Some srs"
proof (cases "srsCache w (FieldToCurve env (Field_of ccs))")
  case None
  with assms show ?thesis
    by (auto simp: getCachedSRS_miss split: prod.splits go_result.splits sum.splits)
next
  case (Some s)
  with assms show ?thesis by (simp add: getCachedSRS_hit)
qed

lemma getCachedSRS_miss_generated:
  assumes "srsCache w (FieldToCurve env (Field_of ccs)) = None"
      and "getCachedSRS env ccs w = (Returned (Inr srs), w')"
  shows "generated_at env (FieldToCurve env (Field_of ccs)) srsCachedSize (rand_reads w) srs"
proof -
  from assms obtain w1 where
    "newKZGSRS env (FieldToCurve env (Field_of ccs)) srsCachedSize w = (Returned (Inr srs), w1)"
    by (auto simp: getCachedSRS_miss split: prod.splits go_result.splits sum.splits)
  from newKZGSRS_Returned [OF this] show ?thesis by simp
qed

text \<open>
  C5. The size \<open>NewKZGSRS\<close> works with is
  \<open>NextPowerOfTwo(constraints + public variables) + 3\<close>, and the threshold is
  \<open>2^14 + 3 = 16387\<close>. At or below the threshold the call goes through the cache of
  the constraint system's curve: a present entry is returned and nothing changes;
  on a miss one reference string is generated at the cached size 16387 (not at the
  required size), and on success it is stored and returned. Above the threshold a
  reference string is generated at exactly the required size; the cache is neither
  read (the outcome is the same whatever the cache holds) nor written.
\<close>

theorem NewKZGSRS_cache_policy:
  "srsCachedSize = 16387
   \<and> (required_size env ccs \<le> srsCachedSize \<longrightarrow>
        (case srsCache w (FieldToCurve env (Field_of ccs)) of
           Some srs \<Rightarrow> NewKZGSRS env ccs w = (Returned (Inr srs), w)
         | None \<Rightarrow>
             NewKZGSRS env ccs w =
               (case newKZGSRS env (FieldToCurve env (Field_of ccs)) srsCachedSize w of
                  (Returned (Inr srs), w') \<Rightarrow>
                    (Returned (Inr srs),
                     w'\<lparr>srsCache := (srsCache w')(FieldToCurve env (Field_of ccs) \<mapsto> srs)\<rparr>)
                | other \<Rightarrow> other)
             \<and> (\<forall>srs w'. NewKZGSRS env ccs w = (Returned (Inr srs), w') \<longrightarrow>
                   generated_at env (FieldToCurve env (Field_of ccs)) srsCachedSize
                     (rand_reads w) srs
                   \<and> srsCache w' (FieldToCurve env (Field_of ccs)) = Some srs)))
   \<and> (srsCachedSize < required_size env ccs \<longrightarrow>
        NewKZGSRS env ccs w =
          newKZGSRS env (FieldToCurve env (Field_of ccs)) (required_size env ccs) w
        \<and> srsCache (snd (NewKZGSRS env ccs w)) = srsCache w
        \<and> (\<forall>c. fst (NewKZGSRS env ccs (w\<lparr>srsCache := c\<rparr>)) = fst (NewKZGSRS env ccs w))
        \<and> (\<forall>srs w'. NewKZGSRS env ccs w = (Returned (Inr srs), w') \<longrightarrow>
              generated_at env (FieldToCurve env (Field_of ccs)) (required_size env ccs)
                (rand_reads w) srs))"
proof (intro conjI impI)
  show "srsCachedSize = 16387" by (rule srsCachedSize_value)
next
  assume small: "required_size env ccs \<le> srsCachedSize"
  show "case srsCache w (FieldToCurve env (Field_of ccs)) of
           Some srs \<Rightarrow> NewKZGSRS env ccs w = (Returned (Inr srs), w)
         | None \<Rightarrow>
             NewKZGSRS env ccs w =
               (case newKZGSRS env (FieldToCurve env (Field_of ccs)) srsCachedSize w of
                  (Returned (Inr srs), w') \<Rightarrow>
                    (Returned (Inr srs),
                     w'\<lparr>srsCache := (srsCache w')(FieldToCurve env (Field_of ccs) \<mapsto> srs)\<rparr>)
                | other \<Rightarrow> other)
             \<and> (\<forall>srs w'. NewKZGSRS env ccs w = (Returned (Inr srs), w') \<longrightarrow>
                   generated_at env (FieldToCurve env (Field_of ccs)) srsCachedSize
                     (rand_reads w) srs
                   \<and> srsCache w' (FieldToCurve env (Field_of ccs)) = Some srs)"
  proof (cases "srsCache w (FieldToCurve env (Field_of ccs))")
    case None
    show ?thesis
      unfolding None option.case NewKZGSRS_small [OF small]
      using getCachedSRS_miss [OF None] getCachedSRS_miss_generated [OF None]
            getCachedSRS_Returned
      by blast
  next
    case (Some srs)
    show ?thesis
      unfolding Some option.case NewKZGSRS_small [OF small]
      by (rule getCachedSRS_hit [OF Some])
  qed
next
  assume large: "srsCachedSize < required_size env ccs"
  show "NewKZGSRS env ccs w =
          newKZGSRS env (FieldToCurve env (Field_of ccs)) (required_size env ccs) w"
    by (rule NewKZGSRS_large [OF large])
  show "srsCache (snd (NewKZGSRS env ccs w)) = srsCache w"
    by (simp only: NewKZGSRS_large [OF large] newKZGSRS_cache)
  show "\<forall>c. fst (NewKZGSRS env ccs (w\<lparr>srsCache := c\<rparr>)) = fst (NewKZGSRS env ccs w)"
    by (simp only: NewKZGSRS_large [OF large] newKZGSRS_any_cache) simp
  show "\<forall>srs w'. NewKZGSRS env ccs w = (Returned (Inr srs), w') \<longrightarrow>
          generated_at env (FieldToCurve env (Field_of ccs)) (required_size env ccs)
            (rand_reads w) srs"
    unfolding NewKZGSRS_large [OF large] using newKZGSRS_Returned by blast
qed

text \<open>
  C6. Two successive calls at or below the threshold for the same curve: when the
  first returns an instance, that instance is the curve's cache entry, and the
  second call returns the very same instance (same address), leaving the state as
  it is. Two successive calls above the threshold that both return: the instances
  are distinct, each was generated at its own required size from its own read of
  the random source (consecutive reads), and the cache is as it was before the
  first call.
\<close>

theorem NewKZGSRS_twice:
  "(required_size env ccs1 \<le> srsCachedSize \<and> required_size env ccs2 \<le> srsCachedSize
      \<and> FieldToCurve env (Field_of ccs2) = FieldToCurve env (Field_of ccs1)
      \<and> NewKZGSRS env ccs1 w = (Returned (Inr srs), w1)
     \<longrightarrow> srsCache w1 (FieldToCurve env (Field_of ccs1)) = Some srs
         \<and> NewKZGSRS env ccs2 w1 = (Returned (Inr srs), w1))
   \<and> (srsCachedSize < required_size env ccs1 \<and> srsCachedSize < required_size env ccs2
      \<and> NewKZGSRS env ccs1 w = (Returned (Inr srs1), w1)
      \<and> NewKZGSRS env ccs2 w1 = (Returned (Inr srs2), w2)
     \<longrightarrow> srs_ptr srs1 \<noteq> srs_ptr srs2
         \<and> generated_at env (FieldToCurve env (Field_of ccs1)) (required_size env ccs1)
             (rand_reads w) srs1
         \<and> generated_at env (FieldToCurve env (Field_of ccs2)) (required_size env ccs2)
             (Suc (rand_reads w)) srs2
         \<and> srsCache w2 = srsCache w)"
proof (intro conjI impI; elim conjE)
  assume s1: "required_size env ccs1 \<le> srsCachedSize"
     and s2: "required_size env ccs2 \<le> srsCachedSize"
     and same: "FieldToCurve env (Field_of ccs2) = FieldToCurve env (Field_of ccs1)"
     and first: "NewKZGSRS env ccs1 w = (Returned (Inr srs), w1)"
  from first have g: "getCachedSRS env ccs1 w = (Returned (Inr srs), w1)"
    by (simp add: NewKZGSRS_small [OF s1])
  show c: "srsCache w1 (FieldToCurve env (Field_of ccs1)) = Some srs"
    by (rule getCachedSRS_Returned [OF g])
  then have "srsCache w1 (FieldToCurve env (Field_of ccs2)) = Some srs"
    by (simp add: same)
  then show "NewKZGSRS env ccs2 w1 = (Returned (Inr srs), w1)"
    by (simp add: NewKZGSRS_small [OF s2] getCachedSRS_hit)
next
  assume l1: "srsCachedSize < required_size env ccs1"
     and l2: "srsCachedSize < required_size env ccs2"
     and first: "NewKZGSRS env ccs1 w = (Returned (Inr srs1), w1)"
     and second: "NewKZGSRS env ccs2 w1 = (Returned (Inr srs2), w2)"
  note a = newKZGSRS_Returned [OF first [unfolded NewKZGSRS_large [OF l1]]]
  note b = newKZGSRS_Returned [OF second [unfolded NewKZGSRS_large [OF l2]]]
  from a have w1: "rand_reads w1 = Suc (rand_reads w)" "srs_allocated w1 = Suc (srs_allocated w)"
    "srsCache w1 = srsCache w"
    by simp_all
  show "srs_ptr srs1 \<noteq> srs_ptr srs2" using a b w1 by simp
  show "generated_at env (FieldToCurve env (Field_of ccs1)) (required_size env ccs1)
          (rand_reads w) srs1"
    using a by simp
  show "generated_at env (FieldToCurve env (Field_of ccs2)) (required_size env ccs2)
          (Suc (rand_reads w)) srs2"
    using b w1 by simp
  show "srsCache w2 = srsCache w" using b w1 by simp
qed
lemma toy_kzg_env_sel:
  "FieldToCurve toy_kzg_env f = BN254"
  "ScalarField toy_kzg_env c = 97"
  "rand_Int toy_kzg_env n b = Inr (int n + 5)"
  "kzg_NewSRS toy_kzg_env c k a = Inr (k, a)"
  by (simp_all add: toy_kzg_env_def)

lemma toy_required_sizes:
  "required_size toy_kzg_env small_cs = 19"
  "required_size toy_kzg_env other_small_cs = 131"
  "required_size toy_kzg_env large_cs = 32771"
  by code_simp+

lemma toy_small_run:
  "NewKZGSRS toy_kzg_env small_cs toy_srs_state =
     (Returned (Inr \<lparr>srs_ptr = 0, srs_contents = (16387, 5)\<rparr>),
      \<lparr>srsCache = [BN254 \<mapsto> \<lparr>srs_ptr = 0, srs_contents = (16387, 5)\<rparr>],
       rand_reads = 1, srs_allocated = 1\<rparr>)"
proof -
  have "required_size toy_kzg_env small_cs \<le> srsCachedSize"
    by (simp add: toy_required_sizes srsCachedSize_value)
  then show ?thesis
    by (simp add: NewKZGSRS_small getCachedSRS_def newKZGSRS_def NewSRS_def toy_kzg_env_sel
          toy_srs_state_def srsCachedSize_value)
qed

lemma toy_large_run:
  "NewKZGSRS toy_kzg_env large_cs \<lparr>srsCache = c, rand_reads = n, srs_allocated = k\<rparr> =
     (Returned (Inr \<lparr>srs_ptr = k, srs_contents = (32771, int n + 5)\<rparr>),
      \<lparr>srsCache = c, rand_reads = Suc n, srs_allocated = Suc k\<rparr>)"
proof -
  have "srsCachedSize < required_size toy_kzg_env large_cs"
    by (simp add: toy_required_sizes srsCachedSize_value)
  then show ?thesis
    by (simp add: NewKZGSRS_large newKZGSRS_def NewSRS_def toy_kzg_env_sel toy_required_sizes)
qed

lemma toy_newKZGSRS:
  "newKZGSRS toy_kzg_env BN254 k \<lparr>srsCache = c, rand_reads = n, srs_allocated = a\<rparr> =
     (Returned (Inr \<lparr>srs_ptr = a, srs_contents = (k, int n + 5)\<rparr>),
      \<lparr>srsCache = c, rand_reads = Suc n, srs_allocated = Suc a\<rparr>)"
  by (simp add: newKZGSRS_def NewSRS_def toy_kzg_env_sel)

theorem NewKZGSRS_cache_policy_witness:
  "required_size toy_kzg_env small_cs \<le> srsCachedSize
   \<and> srsCache toy_srs_state (FieldToCurve toy_kzg_env (Field_of small_cs)) = None
   \<and> NewKZGSRS toy_kzg_env small_cs toy_srs_state =
       (Returned (Inr \<lparr>srs_ptr = 0, srs_contents = (16387, 5)\<rparr>),
        \<lparr>srsCache = [BN254 \<mapsto> \<lparr>srs_ptr = 0, srs_contents = (16387, 5)\<rparr>],
         rand_reads = 1, srs_allocated = 1\<rparr>)
   \<and> srsCachedSize < required_size toy_kzg_env large_cs
   \<and> NewKZGSRS toy_kzg_env large_cs toy_srs_state =
       (Returned (Inr \<lparr>srs_ptr = 0, srs_contents = (32771, 5)\<rparr>),
        \<lparr>srsCache = Map.empty, rand_reads = 1, srs_allocated = 1\<rparr>)"
proof -
  have a: "required_size toy_kzg_env small_cs \<le> srsCachedSize"
    by (simp add: toy_required_sizes srsCachedSize_value)
  have b: "srsCachedSize < required_size toy_kzg_env large_cs"
    by (simp add: toy_required_sizes srsCachedSize_value)
  have c: "srsCache toy_srs_state (FieldToCurve toy_kzg_env (Field_of small_cs)) = None"
    by (simp add: toy_srs_state_def)
  from NewKZGSRS_cache_policy [of toy_kzg_env small_cs toy_srs_state] a
  have "case srsCache toy_srs_state (FieldToCurve toy_kzg_env (Field_of small_cs)) of
          Some srs \<Rightarrow> NewKZGSRS toy_kzg_env small_cs toy_srs_state = (Returned (Inr srs), toy_srs_state)
        | None \<Rightarrow>
            NewKZGSRS toy_kzg_env small_cs toy_srs_state =
              (case newKZGSRS toy_kzg_env (FieldToCurve toy_kzg_env (Field_of small_cs))
                      srsCachedSize toy_srs_state of
                 (Returned (Inr srs), w') \<Rightarrow>
                   (Returned (Inr srs),
                    w'\<lparr>srsCache :=
                         (srsCache w')(FieldToCurve toy_kzg_env (Field_of small_cs) \<mapsto> srs)\<rparr>)
               | other \<Rightarrow> other)
            \<and> (\<forall>srs w'. NewKZGSRS toy_kzg_env small_cs toy_srs_state = (Returned (Inr srs), w') \<longrightarrow>
                  generated_at toy_kzg_env (FieldToCurve toy_kzg_env (Field_of small_cs))
                    srsCachedSize (rand_reads toy_srs_state) srs
                  \<and> srsCache w' (FieldToCurve toy_kzg_env (Field_of small_cs)) = Some srs)"
    by blast
  then have small:
    "NewKZGSRS toy_kzg_env small_cs toy_srs_state =
       (case newKZGSRS toy_kzg_env (FieldToCurve toy_kzg_env (Field_of small_cs))
               srsCachedSize toy_srs_state of
          (Returned (Inr srs), w') \<Rightarrow>
            (Returned (Inr srs),
             w'\<lparr>srsCache :=
                  (srsCache w')(FieldToCurve toy_kzg_env (Field_of small_cs) \<mapsto> srs)\<rparr>)
        | other \<Rightarrow> other)"
    unfolding c option.case by (rule conjunct1)
  have small': "NewKZGSRS toy_kzg_env small_cs toy_srs_state =
       (Returned (Inr \<lparr>srs_ptr = 0, srs_contents = (16387, 5)\<rparr>),
        \<lparr>srsCache = [BN254 \<mapsto> \<lparr>srs_ptr = 0, srs_contents = (16387, 5)\<rparr>],
         rand_reads = 1, srs_allocated = 1\<rparr>)"
    by (subst small)
       (simp add: toy_kzg_env_sel toy_srs_state_def toy_newKZGSRS srsCachedSize_value)
  from NewKZGSRS_cache_policy [of toy_kzg_env large_cs toy_srs_state] b
  have large: "NewKZGSRS toy_kzg_env large_cs toy_srs_state =
          newKZGSRS toy_kzg_env (FieldToCurve toy_kzg_env (Field_of large_cs))
            (required_size toy_kzg_env large_cs) toy_srs_state"
    by blast
  have large': "NewKZGSRS toy_kzg_env large_cs toy_srs_state =
       (Returned (Inr \<lparr>srs_ptr = 0, srs_contents = (32771, 5)\<rparr>),
        \<lparr>srsCache = Map.empty, rand_reads = 1, srs_allocated = 1\<rparr>)"
    by (subst large)
       (simp add: toy_kzg_env_sel toy_required_sizes toy_srs_state_def toy_newKZGSRS)
  from a b c small' large' show ?thesis by blast
qed

theorem NewKZGSRS_twice_witness:
  "required_size toy_kzg_env small_cs \<le> srsCachedSize
   \<and> required_size toy_kzg_env other_small_cs \<le> srsCachedSize
   \<and> FieldToCurve toy_kzg_env (Field_of other_small_cs)
       = FieldToCurve toy_kzg_env (Field_of small_cs)
   \<and> NewKZGSRS toy_kzg_env small_cs toy_srs_state =
       (Returned (Inr \<lparr>srs_ptr = 0, srs_contents = (16387, 5)\<rparr>),
        \<lparr>srsCache = [BN254 \<mapsto> \<lparr>srs_ptr = 0, srs_contents = (16387, 5)\<rparr>],
         rand_reads = 1, srs_allocated = 1\<rparr>)
   \<and> NewKZGSRS toy_kzg_env other_small_cs
        \<lparr>srsCache = [BN254 \<mapsto> \<lparr>srs_ptr = 0, srs_contents = (16387, 5)\<rparr>],
         rand_reads = 1, srs_allocated = 1\<rparr> =
       (Returned (Inr \<lparr>srs_ptr = 0, srs_contents = (16387, 5)\<rparr>),
        \<lparr>srsCache = [BN254 \<mapsto> \<lparr>srs_ptr = 0, srs_contents = (16387, 5)\<rparr>],
         rand_reads = 1, srs_allocated = 1\<rparr>)
   \<and> srsCachedSize < required_size toy_kzg_env large_cs
   \<and> NewKZGSRS toy_kzg_env large_cs toy_srs_state =
       (Returned (Inr \<lparr>srs_ptr = 0, srs_contents = (32771, 5)\<rparr>),
        \<lparr>srsCache = Map.empty, rand_reads = 1, srs_allocated = 1\<rparr>)
   \<and> NewKZGSRS toy_kzg_env large_cs \<lparr>srsCache = Map.empty, rand_reads = 1, srs_allocated = 1\<rparr> =
       (Returned (Inr \<lparr>srs_ptr = 1, srs_contents = (32771, 6)\<rparr>),
        \<lparr>srsCache = Map.empty, rand_reads = 2, srs_allocated = 2\<rparr>)
   \<and> srs_ptr \<lparr>srs_ptr = 0, srs_contents = (32771 :: 64 word, 5 :: int)\<rparr>
       \<noteq> srs_ptr \<lparr>srs_ptr = 1, srs_contents = (32771 :: 64 word, 6 :: int)\<rparr>"
proof -
  have a: "required_size toy_kzg_env small_cs \<le> srsCachedSize"
    and a': "required_size toy_kzg_env other_small_cs \<le> srsCachedSize"
    and b: "srsCachedSize < required_size toy_kzg_env large_cs"
    by (simp_all add: toy_required_sizes srsCachedSize_value)
  have f: "FieldToCurve toy_kzg_env (Field_of other_small_cs)
             = FieldToCurve toy_kzg_env (Field_of small_cs)"
    by (simp add: toy_kzg_env_sel)
  have l1: "NewKZGSRS toy_kzg_env large_cs toy_srs_state =
       (Returned (Inr \<lparr>srs_ptr = 0, srs_contents = (32771, 5)\<rparr>),
        \<lparr>srsCache = Map.empty, rand_reads = 1, srs_allocated = 1\<rparr>)"
    unfolding toy_srs_state_def by (simp add: toy_large_run)
  have l2: "NewKZGSRS toy_kzg_env large_cs
              \<lparr>srsCache = Map.empty, rand_reads = 1, srs_allocated = 1\<rparr> =
       (Returned (Inr \<lparr>srs_ptr = 1, srs_contents = (32771, 6)\<rparr>),
        \<lparr>srsCache = Map.empty, rand_reads = 2, srs_allocated = 2\<rparr>)"
    by (simp add: toy_large_run)
  from a a' f toy_small_run
    NewKZGSRS_twice [of toy_kzg_env small_cs other_small_cs toy_srs_state
        "\<lparr>srs_ptr = 0, srs_contents = (16387, 5)\<rparr>"
        "\<lparr>srsCache = [BN254 \<mapsto> \<lparr>srs_ptr = 0, srs_contents = (16387, 5)\<rparr>],
          rand_reads = 1, srs_allocated = 1\<rparr>"]
  have s2: "NewKZGSRS toy_kzg_env other_small_cs
        \<lparr>srsCache = [BN254 \<mapsto> \<lparr>srs_ptr = 0, srs_contents = (16387, 5)\<rparr>],
         rand_reads = 1, srs_allocated = 1\<rparr> =
       (Returned (Inr \<lparr>srs_ptr = 0, srs_contents = (16387, 5)\<rparr>),
        \<lparr>srsCache = [BN254 \<mapsto> \<lparr>srs_ptr = 0, srs_contents = (16387, 5)\<rparr>],
         rand_reads = 1, srs_allocated = 1\<rparr>)"
    by blast
  from b l1 l2
    NewKZGSRS_twice [of toy_kzg_env large_cs large_cs toy_srs_state _
        "\<lparr>srsCache = Map.empty, rand_reads = 1, srs_allocated = 1\<rparr>"
        "\<lparr>srs_ptr = 0, srs_contents = (32771, 5)\<rparr>"
        "\<lparr>srs_ptr = 1, srs_contents = (32771, 6)\<rparr>"
        "\<lparr>srsCache = Map.empty, rand_reads = 2, srs_allocated = 2\<rparr>"]
  have d: "srs_ptr \<lparr>srs_ptr = 0, srs_contents = (32771 :: 64 word, 5 :: int)\<rparr>
       \<noteq> srs_ptr \<lparr>srs_ptr = 1, srs_contents = (32771 :: 64 word, 6 :: int)\<rparr>"
    by blast
  from a a' f toy_small_run s2 b l1 l2 d show ?thesis by blast
qed

section \<open>Theorems: package test, the assertion helper\<close>

lemma bind_outcome_Ret:
  "bind_outcome m f = (Ret y, s') \<longleftrightarrow> (\<exists>x s. m = (Ret x, s) \<and> f x s = (Ret y, s'))"
  by (cases m) (auto simp: bind_outcome_def split: outcome.splits)

lemma checkError_Ret: "checkError env err b curve w circuit = Ret u \<longleftrightarrow> err = None"
  by (auto simp: checkError_def Let_def split: option.splits outcome.splits)

lemma mustError_Ret: "mustError env err b curve w circuit = Ret u \<longleftrightarrow> err \<noteq> None"
  by (auto simp: mustError_def split: outcome.splits)

lemma error_of_None: "error_of r = None \<longleftrightarrow> (\<exists>ccs. r = Inr ccs)"
  by (cases r) (simp_all add: error_of_def)

lemma solvingSucceeded_Ret:
  assumes "solvingSucceeded env circuit va b curve opt ts = (Ret u, ts')"
  shows "\<exists>wit ccs. NewWitness env va (scalar_field env curve) = Inr wit
           \<and> compile env circuit curve b (compileOpts opt) ts = (Ret (Inr ccs), ts')
           \<and> test_IsSolved env circuit va (scalar_field env curve) False = None
           \<and> ccs_IsSolved env ccs wit (solverOpts opt) = None"
proof (cases "NewWitness env va (scalar_field env curve)")
  case (Inl e)
  with assms show ?thesis by (simp add: solvingSucceeded_def)
next
  case (Inr wit)
  with assms obtain r s where
    c: "compile env circuit curve b (compileOpts opt) ts = (Ret r, s)" and
    e1: "checkError env (error_of r) b curve wit circuit = Ret ()" and
    e2: "checkError env
           (map_option External (test_IsSolved env circuit va (scalar_field env curve) False))
           b curve wit circuit = Ret ()" and
    last: "(case r of
              Inl e \<Rightarrow> (PanicMsg ''invalid memory address or nil pointer dereference'', s)
            | Inr ccs \<Rightarrow>
                (checkError env
                   (map_option External (ccs_IsSolved env ccs wit (solverOpts opt)))
                   b curve wit circuit, s)) = (Ret u, ts')"
    by (auto simp: solvingSucceeded_def bind_outcome_Ret)
  from e1 obtain ccs where r: "r = Inr ccs"
    by (auto simp: checkError_Ret error_of_None)
  from e2 have t: "test_IsSolved env circuit va (scalar_field env curve) False = None"
    by (simp add: checkError_Ret)
  from last r have "ccs_IsSolved env ccs wit (solverOpts opt) = None" and "s = ts'"
    by (simp_all add: checkError_Ret)
  with Inr c r t show ?thesis by simp
qed

lemma solvingFailed_Ret:
  assumes "solvingFailed env circuit va b curve opt ts = (Ret u, ts')"
  shows "\<exists>wit ccs. NewWitness env va (scalar_field env curve) = Inr wit
           \<and> compile env circuit curve b (compileOpts opt) ts = (Ret (Inr ccs), ts')
           \<and> test_IsSolved env circuit va (scalar_field env curve) False \<noteq> None
           \<and> ccs_IsSolved env ccs wit (solverOpts opt) \<noteq> None"
proof (cases "NewWitness env va (scalar_field env curve)")
  case (Inl e)
  with assms show ?thesis by (simp add: solvingFailed_def)
next
  case (Inr wit)
  with assms obtain r s where
    c: "compile env circuit curve b (compileOpts opt) ts = (Ret r, s)" and
    e1: "checkError env (error_of r) b curve wit circuit = Ret ()" and
    e2: "mustError env
           (map_option External (test_IsSolved env circuit va (scalar_field env curve) False))
           b curve wit circuit = Ret ()" and
    last: "(case r of
              Inl e \<Rightarrow> (PanicMsg ''invalid memory address or nil pointer dereference'', s)
            | Inr ccs \<Rightarrow>
                (mustError env
                   (map_option External (ccs_IsSolved env ccs wit (solverOpts opt)))
                   b curve wit circuit, s)) = (Ret u, ts')"
    by (auto simp: solvingFailed_def bind_outcome_Ret)
  from e1 obtain ccs where r: "r = Inr ccs"
    by (auto simp: checkError_Ret error_of_None)
  from e2 have t: "test_IsSolved env circuit va (scalar_field env curve) False \<noteq> None"
    by (simp add: mustError_Ret)
  from last r have "ccs_IsSolved env ccs wit (solverOpts opt) \<noteq> None" and "s = ts'"
    by (simp_all add: mustError_Ret)
  with Inr c r t show ?thesis by simp
qed

lemma checkError_None: "checkError env None b curve w circuit = Ret ()"
  by (simp add: checkError_def)

lemma mustError_Some: "mustError env (Some e) b curve w circuit = Ret ()"
  by (simp add: mustError_def)

lemma checkError_Some:
  "checkError env (Some e) b curve w circuit =
     (case schema_New env circuit of
        Inl se \<Rightarrow> PanicMsg (''couldn't parse schema from circuit: '' @ external_text env se)
      | Inr s \<Rightarrow>
          FailNow (backend_String env b @ ''('' @ curve_String env curve @ ''): ''
                   @ Error_text (external_text env) e @ [CHR 0x0A] @ ''witness:''
                   @ (case ToJSON env w s of Inl je \<Rightarrow> external_text env je | Inr bjson \<Rightarrow> bjson)))"
  by (simp add: checkError_def witness_json_def lazySchema_def Let_def split: sum.splits)

lemma mustError_None:
  "mustError env None b curve w circuit =
     (case schema_New env circuit of
        Inl se \<Rightarrow> PanicMsg (''couldn't parse schema from circuit: '' @ external_text env se)
      | Inr s \<Rightarrow>
          FailNow (''did not error (but should have) '' @ backend_String env b @ ''(''
                   @ curve_String env curve @ '')'' @ [CHR 0x0A] @ ''witness:''
                   @ (case ToJSON env w s of Inl je \<Rightarrow> external_text env je | Inr bjson \<Rightarrow> bjson)))"
  by (simp add: mustError_def witness_json_def lazySchema_def split: sum.splits)

lemma solvingSucceeded_compiled:
  assumes "NewWitness env va (scalar_field env curve) = Inr wit"
      and "compile env circuit curve b (compileOpts opt) ts = (Ret (Inr ccs), ts1)"
      and "test_IsSolved env circuit va (scalar_field env curve) False = None"
  shows "solvingSucceeded env circuit va b curve opt ts =
           (checkError env (map_option External (ccs_IsSolved env ccs wit (solverOpts opt)))
              b curve wit circuit, ts1)"
  using assms
  by (simp add: solvingSucceeded_def bind_outcome_def error_of_def checkError_def)

lemma solvingFailed_compiled:
  assumes "NewWitness env va (scalar_field env curve) = Inr wit"
      and "compile env circuit curve b (compileOpts opt) ts = (Ret (Inr ccs), ts1)"
      and "test_IsSolved env circuit va (scalar_field env curve) False = Some e"
  shows "solvingFailed env circuit va b curve opt ts =
           (mustError env (map_option External (ccs_IsSolved env ccs wit (solverOpts opt)))
              b curve wit circuit, ts1)"
  using assms
  by (simp add: solvingFailed_def bind_outcome_def error_of_def checkError_def mustError_def)

lemma solvingSucceeded_not_compiled:
  assumes "NewWitness env va (scalar_field env curve) = Inr wit"
      and "compile env circuit curve b (compileOpts opt) ts = (cr, ts1)"
      and "\<forall>ccs. cr \<noteq> Ret (Inr ccs)"
  shows "snd (solvingSucceeded env circuit va b curve opt ts) = ts1
       \<and> (\<forall>u. fst (solvingSucceeded env circuit va b curve opt ts) \<noteq> Ret u)"
proof (cases cr)
  case (Ret r)
  with assms(3) obtain e where r: "r = Inl e" by (cases r) auto
  have "\<forall>u. checkError env (Some e) b curve wit circuit \<noteq> Ret u"
    by (simp add: checkError_Ret)
  then show ?thesis
    using assms(1,2) Ret r
    by (auto simp: solvingSucceeded_def bind_outcome_def error_of_def split: outcome.splits)
next
  case (FailNow m)
  with assms(1,2) show ?thesis by (simp add: solvingSucceeded_def bind_outcome_def)
next
  case (PanicErr e)
  with assms(1,2) show ?thesis by (simp add: solvingSucceeded_def bind_outcome_def)
next
  case (PanicMsg m)
  with assms(1,2) show ?thesis by (simp add: solvingSucceeded_def bind_outcome_def)
qed

lemma solvingFailed_not_compiled:
  assumes "NewWitness env va (scalar_field env curve) = Inr wit"
      and "compile env circuit curve b (compileOpts opt) ts = (cr, ts1)"
      and "\<forall>ccs. cr \<noteq> Ret (Inr ccs)"
  shows "snd (solvingFailed env circuit va b curve opt ts) = ts1
       \<and> (\<forall>u. fst (solvingFailed env circuit va b curve opt ts) \<noteq> Ret u)"
proof (cases cr)
  case (Ret r)
  with assms(3) obtain e where r: "r = Inl e" by (cases r) auto
  have "\<forall>u. checkError env (Some e) b curve wit circuit \<noteq> Ret u"
    by (simp add: checkError_Ret)
  then show ?thesis
    using assms(1,2) Ret r
    by (auto simp: solvingFailed_def bind_outcome_def error_of_def split: outcome.splits)
next
  case (FailNow m)
  with assms(1,2) show ?thesis by (simp add: solvingFailed_def bind_outcome_def)
next
  case (PanicErr e)
  with assms(1,2) show ?thesis by (simp add: solvingFailed_def bind_outcome_def)
next
  case (PanicMsg m)
  with assms(1,2) show ?thesis by (simp add: solvingFailed_def bind_outcome_def)
qed

text \<open>
  C4, as the code has it. For a circuit given by pointer, a backend that \<open>compile\<close>
  knows and a key absent from the cache: \<open>compile\<close> compiles once; if that fails, it
  returns the compiler's error as it is (not the non-determinism fault) and compiles
  no second time. Otherwise it compiles a second time; a failure of the second
  compilation is returned wrapped in \<open>ErrCompilationNotDeterministic\<close>, a pair of
  systems that \<open>DeepEqual\<close> tells apart is returned as
  \<open>ErrCompilationNotDeterministic\<close> itself, and two equal systems are cached and
  returned. The cache changes in the last case only.
\<close>

theorem compile_twice_and_classify:
  assumes "is_pointer circuit"
      and "newBuilder_for backendID = Some nb"
      and "compiled ts (cache_key env curveID backendID circuit (pointer circuit)) = None"
  shows
    "let key = cache_key env curveID backendID circuit (pointer circuit);
         n = compile_calls ts;
         first = Compile env n (scalar_field env curveID) nb circuit opts;
         second = Compile env (Suc n) (scalar_field env curveID) nb circuit opts;
         (r, ts') = compile env circuit curveID backendID opts ts
     in (case first of
           Inl e \<Rightarrow>
             r = Ret (Inl (External e))
             \<and> \<not> errors_Is (External e) ErrCompilationNotDeterministic
             \<and> compile_calls ts' = Suc n \<and> compiled ts' = compiled ts
         | Inr ccs \<Rightarrow>
             compile_calls ts' = Suc (Suc n)
             \<and> (case second of
                  Inl e \<Rightarrow>
                    (\<exists>err. r = Ret (Inl err)
                       \<and> errors_Is err ErrCompilationNotDeterministic
                       \<and> Error_text (external_text env) err
                           = ''compilation is not deterministic: '' @ external_text env e)
                    \<and> compiled ts' = compiled ts
                | Inr ccs' \<Rightarrow>
                    if DeepEqual env ccs ccs'
                    then r = Ret (Inr ccs) \<and> compiled ts' = (compiled ts)(key \<mapsto> ccs)
                    else r = Ret (Inl ErrCompilationNotDeterministic)
                         \<and> compiled ts' = compiled ts))"
  using assms
  by (simp add: compile_def getCircuitAddr_def Let_def split: sum.splits)

theorem compile_twice_and_classify_witness:
  "is_pointer toy_circuit
   \<and> newBuilder_for PLONK = Some scs_NewBuilder
   \<and> compiled toy_test_state (cache_key toy_test_env BN254 PLONK toy_circuit (pointer toy_circuit))
       = None
   \<and> fst (compile toy_test_env toy_circuit BN254 PLONK () toy_test_state) = Ret (Inr ''ccs'')
   \<and> compile_calls (snd (compile toy_test_env toy_circuit BN254 PLONK () toy_test_state)) = 2"
proof -
  have a: "is_pointer toy_circuit" by (simp add: toy_circuit_def)
  have b: "newBuilder_for PLONK = Some scs_NewBuilder" by (simp add: newBuilder_for_def)
  have c: "compiled toy_test_state
             (cache_key toy_test_env BN254 PLONK toy_circuit (pointer toy_circuit)) = None"
    by (simp add: toy_test_state_def)
  show ?thesis
    using a b c compile_twice_and_classify [OF a b c, of "()"]
    by (simp add: Let_def toy_test_env_def toy_test_state_def split: prod.splits)
qed

text \<open>
  The claim C4 says that a compilation failure is reported as an ordinary compile
  error and not as the non-determinism fault. Here the first compilation succeeds
  and the second fails with "out of memory": the error returned wraps
  \<open>ErrCompilationNotDeterministic\<close>.
\<close>

theorem compile_second_failure_is_nondeterminism_fault:
  "fst (compile second_compile_fails toy_circuit BN254 PLONK () toy_test_state)
     = Ret (Inl (Errorf_w '''' ErrCompilationNotDeterministic '': out of memory''))
   \<and> errors_Is (Errorf_w '''' ErrCompilationNotDeterministic '': out of memory'' :: string error)
        ErrCompilationNotDeterministic"
  by (simp add: compile_def getCircuitAddr_def newBuilder_for_def Let_def
        second_compile_fails_def toy_test_env_def toy_circuit_def toy_test_state_def)

lemma bind_outcome_abort:
  "\<forall>x. fst m \<noteq> Ret x \<Longrightarrow>
   snd (bind_outcome m f) = snd m \<and> (\<forall>y. fst (bind_outcome m f) \<noteq> Ret y)"
  by (cases m) (auto simp: bind_outcome_def split: outcome.splits)

text \<open>
  C3, as the code has it. \<open>fuzzer\<close> lets the filler write the assignment and asks the
  test engine twice, in variable mode and in constant mode. If exactly one of the
  two accepts, it builds the witness, the schema and the witness's JSON, panicking
  with the error (and logging nothing) if one of the three fails, and otherwise logs
  the two verdicts and the witness, in this order, and stops the test with
  \<open>FailNow\<close>. If the two agree, it parses the witness and compiles the circuit,
  stopping the test if either fails; then, if both accepted, it returns the count 1
  when the compiled system accepts the witness and stops the test with the system's
  error when it rejects it; if both rejected, it returns the count 0 when the
  compiled system rejects the witness and stops the test with "did not error (but
  should have)" when it accepts it. So it returns only when the two modes agree and
  in-system solving gives the same verdict.
\<close>

theorem fuzzer_verdict_handling:
  "let filled = fill (content circuit) (content w) curve;
       c' = circuit\<lparr>content := fst filled\<rparr>;
       w' = w\<lparr>content := snd filled\<rparr>;
       errVars = test_IsSolved env c' w' (scalar_field env curve) False;
       errConsts = test_IsSolved env c' w' (scalar_field env curve) True;
       run = fuzzer env fill circuit w b curve opt ts
   in ((errVars = None) \<noteq> (errConsts = None) \<longrightarrow>
         (case NewWitness env w' (scalar_field env curve) of
            Inl e \<Rightarrow> run = (PanicErr e, ts)
          | Inr wit \<Rightarrow>
              (case NewSchema env c' of
                 Inl e \<Rightarrow> run = (PanicErr e, ts)
               | Inr s \<Rightarrow>
                   (case ToJSON env wit s of
                      Inl e \<Rightarrow> run = (PanicErr e, ts)
                    | Inr bb \<Rightarrow>
                        run =
                          (FailNow ''solving circuit with values as constants vs non-constants mismatched result'',
                           ts\<lparr>test_log := test_log ts
                                @ [Log_error ''errVars'' errVars, Log_error ''errConsts'' errConsts,
                                   Log_text ''fuzzer witness'' bb]\<rparr>)))))
      \<and> ((errVars = None) = (errConsts = None) \<longrightarrow>
           (case NewWitness env w' (scalar_field env curve) of
              Inl e \<Rightarrow>
                run = (FailNow (if errVars = None then ''can't parse valid assignment''
                                else ''can't parse invalid assignment''), ts)
            | Inr wit \<Rightarrow>
                (case compile env c' curve b (compileOpts opt) ts of
                   (Ret (Inr ccs), ts1) \<Rightarrow>
                     (case (errVars, ccs_IsSolved env ccs wit (solverOpts opt)) of
                        (None, None) \<Rightarrow> run = (Ret 1, ts1)
                      | (Some ev, Some es) \<Rightarrow> run = (Ret 0, ts1)
                      | (None, Some es) \<Rightarrow>
                          run =
                            (case schema_New env c' of
                               Inl se \<Rightarrow>
                                 PanicMsg (''couldn't parse schema from circuit: ''
                                           @ external_text env se)
                             | Inr s \<Rightarrow>
                                 FailNow (backend_String env b @ ''('' @ curve_String env curve
                                          @ ''): '' @ external_text env es @ [CHR 0x0A]
                                          @ ''witness:''
                                          @ (case ToJSON env wit s of
                                               Inl je \<Rightarrow> external_text env je
                                             | Inr bjson \<Rightarrow> bjson)),
                             ts1)
                      | (Some ev, None) \<Rightarrow>
                          run =
                            (case schema_New env c' of
                               Inl se \<Rightarrow>
                                 PanicMsg (''couldn't parse schema from circuit: ''
                                           @ external_text env se)
                             | Inr s \<Rightarrow>
                                 FailNow (''did not error (but should have) ''
                                          @ backend_String env b @ ''('' @ curve_String env curve
                                          @ '')'' @ [CHR 0x0A] @ ''witness:''
                                          @ (case ToJSON env wit s of
                                               Inl je \<Rightarrow> external_text env je
                                             | Inr bjson \<Rightarrow> bjson)),
                             ts1))
                 | (other, ts1) \<Rightarrow> snd run = ts1 \<and> (\<forall>n. fst run \<noteq> Ret n))))
      \<and> (\<forall>n ts'. run = (Ret n, ts') \<longrightarrow>
            (errVars = None) = (errConsts = None)
            \<and> n = (if errVars = None then 1 else 0)
            \<and> (\<exists>wit ccs. NewWitness env w' (scalar_field env curve) = Inr wit
                  \<and> compile env c' curve b (compileOpts opt) ts = (Ret (Inr ccs), ts')
                  \<and> (ccs_IsSolved env ccs wit (solverOpts opt) = None) = (errVars = None)))"
proof -
  define filled where "filled = fill (content circuit) (content w) curve"
  define c' where "c' = circuit\<lparr>content := fst filled\<rparr>"
  define w' where "w' = w\<lparr>content := snd filled\<rparr>"
  define errVars where "errVars = test_IsSolved env c' w' (scalar_field env curve) False"
  define errConsts where "errConsts = test_IsSolved env c' w' (scalar_field env curve) True"
  define run where "run = fuzzer env fill circuit w b curve opt ts"
  have run_eq: "run =
     (if (errVars = None) \<noteq> (errConsts = None) then
        (case NewWitness env w' (scalar_field env curve) of
           Inl e \<Rightarrow> (PanicErr e, ts)
         | Inr wit \<Rightarrow>
             (case NewSchema env c' of
                Inl e \<Rightarrow> (PanicErr e, ts)
              | Inr s \<Rightarrow>
                  (case ToJSON env wit s of
                     Inl e \<Rightarrow> (PanicErr e, ts)
                   | Inr bb \<Rightarrow>
                       (FailNow ''solving circuit with values as constants vs non-constants mismatched result'',
                        ts\<lparr>test_log := test_log ts
                             @ [Log_error ''errVars'' errVars, Log_error ''errConsts'' errConsts,
                                Log_text ''fuzzer witness'' bb]\<rparr>))))
      else if errVars = None \<and> errConsts = None then
        bind_outcome (solvingSucceeded env c' w' b curve opt ts) (\<lambda>_ ts. (Ret 1, ts))
      else
        bind_outcome (solvingFailed env c' w' b curve opt ts) (\<lambda>_ ts. (Ret 0, ts)))"
    unfolding run_def fuzzer_def Let_def errVars_def errConsts_def c'_def w'_def filled_def
    by (rule refl)
  have mismatch: "(errVars = None) \<noteq> (errConsts = None) \<longrightarrow>
         (case NewWitness env w' (scalar_field env curve) of
            Inl e \<Rightarrow> run = (PanicErr e, ts)
          | Inr wit \<Rightarrow>
              (case NewSchema env c' of
                 Inl e \<Rightarrow> run = (PanicErr e, ts)
               | Inr s \<Rightarrow>
                   (case ToJSON env wit s of
                      Inl e \<Rightarrow> run = (PanicErr e, ts)
                    | Inr bb \<Rightarrow>
                        run =
                          (FailNow ''solving circuit with values as constants vs non-constants mismatched result'',
                           ts\<lparr>test_log := test_log ts
                                @ [Log_error ''errVars'' errVars, Log_error ''errConsts'' errConsts,
                                   Log_text ''fuzzer witness'' bb]\<rparr>))))"
    by (simp add: run_eq split: sum.splits)
  have agree: "(errVars = None) = (errConsts = None) \<longrightarrow>
           (case NewWitness env w' (scalar_field env curve) of
              Inl e \<Rightarrow>
                run = (FailNow (if errVars = None then ''can't parse valid assignment''
                                else ''can't parse invalid assignment''), ts)
            | Inr wit \<Rightarrow>
                (case compile env c' curve b (compileOpts opt) ts of
                   (Ret (Inr ccs), ts1) \<Rightarrow>
                     (case (errVars, ccs_IsSolved env ccs wit (solverOpts opt)) of
                        (None, None) \<Rightarrow> run = (Ret 1, ts1)
                      | (Some ev, Some es) \<Rightarrow> run = (Ret 0, ts1)
                      | (None, Some es) \<Rightarrow>
                          run =
                            (case schema_New env c' of
                               Inl se \<Rightarrow>
                                 PanicMsg (''couldn't parse schema from circuit: ''
                                           @ external_text env se)
                             | Inr s \<Rightarrow>
                                 FailNow (backend_String env b @ ''('' @ curve_String env curve
                                          @ ''): '' @ external_text env es @ [CHR 0x0A]
                                          @ ''witness:''
                                          @ (case ToJSON env wit s of
                                               Inl je \<Rightarrow> external_text env je
                                             | Inr bjson \<Rightarrow> bjson)),
                             ts1)
                      | (Some ev, None) \<Rightarrow>
                          run =
                            (case schema_New env c' of
                               Inl se \<Rightarrow>
                                 PanicMsg (''couldn't parse schema from circuit: ''
                                           @ external_text env se)
                             | Inr s \<Rightarrow>
                                 FailNow (''did not error (but should have) ''
                                          @ backend_String env b @ ''('' @ curve_String env curve
                                          @ '')'' @ [CHR 0x0A] @ ''witness:''
                                          @ (case ToJSON env wit s of
                                               Inl je \<Rightarrow> external_text env je
                                             | Inr bjson \<Rightarrow> bjson)),
                             ts1))
                 | (other, ts1) \<Rightarrow> snd run = ts1 \<and> (\<forall>n. fst run \<noteq> Ret n)))"
  proof
    assume ag: "(errVars = None) = (errConsts = None)"
    have run_ok: "errVars = None \<Longrightarrow>
        run = bind_outcome (solvingSucceeded env c' w' b curve opt ts) (\<lambda>_ ts. (Ret 1, ts))"
      using ag by (auto simp: run_eq)
    have run_bad: "errVars \<noteq> None \<Longrightarrow>
        run = bind_outcome (solvingFailed env c' w' b curve opt ts) (\<lambda>_ ts. (Ret 0, ts))"
      using ag by (auto simp: run_eq)
    show "case NewWitness env w' (scalar_field env curve) of
              Inl e \<Rightarrow>
                run = (FailNow (if errVars = None then ''can't parse valid assignment''
                                else ''can't parse invalid assignment''), ts)
            | Inr wit \<Rightarrow>
                (case compile env c' curve b (compileOpts opt) ts of
                   (Ret (Inr ccs), ts1) \<Rightarrow>
                     (case (errVars, ccs_IsSolved env ccs wit (solverOpts opt)) of
                        (None, None) \<Rightarrow> run = (Ret 1, ts1)
                      | (Some ev, Some es) \<Rightarrow> run = (Ret 0, ts1)
                      | (None, Some es) \<Rightarrow>
                          run =
                            (case schema_New env c' of
                               Inl se \<Rightarrow>
                                 PanicMsg (''couldn't parse schema from circuit: ''
                                           @ external_text env se)
                             | Inr s \<Rightarrow>
                                 FailNow (backend_String env b @ ''('' @ curve_String env curve
                                          @ ''): '' @ external_text env es @ [CHR 0x0A]
                                          @ ''witness:''
                                          @ (case ToJSON env wit s of
                                               Inl je \<Rightarrow> external_text env je
                                             | Inr bjson \<Rightarrow> bjson)),
                             ts1)
                      | (Some ev, None) \<Rightarrow>
                          run =
                            (case schema_New env c' of
                               Inl se \<Rightarrow>
                                 PanicMsg (''couldn't parse schema from circuit: ''
                                           @ external_text env se)
                             | Inr s \<Rightarrow>
                                 FailNow (''did not error (but should have) ''
                                          @ backend_String env b @ ''('' @ curve_String env curve
                                          @ '')'' @ [CHR 0x0A] @ ''witness:''
                                          @ (case ToJSON env wit s of
                                               Inl je \<Rightarrow> external_text env je
                                             | Inr bjson \<Rightarrow> bjson)),
                             ts1))
                 | (other, ts1) \<Rightarrow> snd run = ts1 \<and> (\<forall>n. fst run \<noteq> Ret n))"
    proof (cases "NewWitness env w' (scalar_field env curve)")
      case (Inl e)
      show ?thesis
      proof (cases "errVars = None")
        case True
        with Inl run_ok show ?thesis
          by (simp add: solvingSucceeded_def bind_outcome_def)
      next
        case False
        with Inl run_bad show ?thesis
          by (simp add: solvingFailed_def bind_outcome_def)
      qed
    next
      case (Inr wit)
      obtain cr ts1 where c: "compile env c' curve b (compileOpts opt) ts = (cr, ts1)"
        by (cases "compile env c' curve b (compileOpts opt) ts") blast
      show ?thesis
      proof (cases "\<exists>ccs. cr = Ret (Inr ccs)")
        case True
        then obtain ccs where cr: "cr = Ret (Inr ccs)" by blast
        note c' = c [unfolded cr]
        show ?thesis
        proof (cases errVars)
          case None
          then have t: "test_IsSolved env c' w' (scalar_field env curve) False = None"
            by (simp add: errVars_def)
          have "run = bind_outcome
                  (checkError env
                     (map_option External (ccs_IsSolved env ccs wit (solverOpts opt)))
                     b curve wit c', ts1) (\<lambda>_ ts. (Ret 1, ts))"
            using run_ok None by (simp add: solvingSucceeded_compiled [OF Inr c' t])
          then show ?thesis
            using Inr c' None
            by (cases "ccs_IsSolved env ccs wit (solverOpts opt)")
               (simp_all add: checkError_Some checkError_None bind_outcome_def
                  split: sum.splits)
        next
          case (Some ev)
          then have t: "test_IsSolved env c' w' (scalar_field env curve) False = Some ev"
            by (simp add: errVars_def)
          have "run = bind_outcome
                  (mustError env
                     (map_option External (ccs_IsSolved env ccs wit (solverOpts opt)))
                     b curve wit c', ts1) (\<lambda>_ ts. (Ret 0, ts))"
            using run_bad Some by (simp add: solvingFailed_compiled [OF Inr c' t])
          then show ?thesis
            using Inr c' Some
            by (cases "ccs_IsSolved env ccs wit (solverOpts opt)")
               (simp_all add: mustError_None mustError_Some bind_outcome_def
                  split: sum.splits)
        qed
      next
        case False
        then have nc: "\<forall>ccs. cr \<noteq> Ret (Inr ccs)" by blast
        have "snd run = ts1 \<and> (\<forall>n. fst run \<noteq> Ret n)"
        proof (cases "errVars = None")
          case True
          from solvingSucceeded_not_compiled [OF Inr c nc]
               bind_outcome_abort
                 [of "solvingSucceeded env c' w' b curve opt ts" "\<lambda>_ ts. (Ret 1, ts)"]
          show ?thesis unfolding run_ok [OF True] by simp
        next
          case False
          from solvingFailed_not_compiled [OF Inr c nc]
               bind_outcome_abort
                 [of "solvingFailed env c' w' b curve opt ts" "\<lambda>_ ts. (Ret 0, ts)"]
          show ?thesis unfolding run_bad [OF False] by simp
        qed
        then show ?thesis
          using Inr c nc by (simp split: outcome.splits sum.splits)
      qed
    qed
  qed
  have returns: "\<forall>n ts'. run = (Ret n, ts') \<longrightarrow>
            (errVars = None) = (errConsts = None)
            \<and> n = (if errVars = None then 1 else 0)
            \<and> (\<exists>wit ccs. NewWitness env w' (scalar_field env curve) = Inr wit
                  \<and> compile env c' curve b (compileOpts opt) ts = (Ret (Inr ccs), ts')
                  \<and> (ccs_IsSolved env ccs wit (solverOpts opt) = None) = (errVars = None))"
  proof (intro allI impI)
    fix n ts' assume r: "run = (Ret n, ts')"
    have agree: "(errVars = None) = (errConsts = None)"
    proof (rule ccontr)
      assume "(errVars = None) \<noteq> (errConsts = None)"
      with r show False by (simp add: run_eq split: sum.splits)
    qed
    show "(errVars = None) = (errConsts = None)
            \<and> n = (if errVars = None then 1 else 0)
            \<and> (\<exists>wit ccs. NewWitness env w' (scalar_field env curve) = Inr wit
                  \<and> compile env c' curve b (compileOpts opt) ts = (Ret (Inr ccs), ts')
                  \<and> (ccs_IsSolved env ccs wit (solverOpts opt) = None) = (errVars = None))"
    proof (cases "errVars = None")
      case True
      with agree r obtain u where
        "solvingSucceeded env c' w' b curve opt ts = (Ret u, ts')" and "n = 1"
        by (auto simp: run_eq bind_outcome_Ret)
      with solvingSucceeded_Ret [of env c' w' b curve opt ts u ts'] True agree
      show ?thesis by auto
    next
      case False
      with agree r obtain u where
        "solvingFailed env c' w' b curve opt ts = (Ret u, ts')" and "n = 0"
        by (auto simp: run_eq bind_outcome_Ret)
      with solvingFailed_Ret [of env c' w' b curve opt ts u ts'] False agree
      show ?thesis by auto
    qed
  qed
  from mismatch agree returns show ?thesis
    unfolding Let_def filled_def [symmetric] c'_def [symmetric] w'_def [symmetric]
      errVars_def [symmetric] errConsts_def [symmetric] run_def [symmetric]
    by (intro conjI)
qed

lemma toy_env_sel:
  "scalar_field toy_test_env c = 97"
  "test_IsSolved toy_test_env circ w f consts =
     (if take 1 (content w) = [2] then Some ''constraint is not satisfied''
      else if consts \<and> take 1 (content w) = [0] then Some ''constant division by zero''
      else None)"
  "ccs_IsSolved toy_test_env ccs wit so =
     (if take 1 wit = [2] then Some ''constraint is not satisfied'' else None)"
  "NewWitness toy_test_env w f = Inr (content w)"
  "NewSchema toy_test_env circ = Inr ()"
  "schema_New toy_test_env circ = Inr ()"
  "ToJSON toy_test_env wit sc = Inr ''{}''"
  "external_text toy_test_env e = e"
  "curve_String toy_test_env c = ''bn254''"
  "backend_String toy_test_env b = ''plonk''"
  by (simp_all add: toy_test_env_def)

lemma rejecting_env_sel:
  "scalar_field solver_rejects_all c = 97"
  "test_IsSolved solver_rejects_all circ w f consts =
     (if take 1 (content w) = [2] then Some ''constraint is not satisfied''
      else if consts \<and> take 1 (content w) = [0] then Some ''constant division by zero''
      else None)"
  "ccs_IsSolved solver_rejects_all ccs wit so = Some ''rejected''"
  "NewWitness solver_rejects_all w f = Inr (content w)"
  "schema_New solver_rejects_all circ = Inr ()"
  "ToJSON solver_rejects_all wit sc = Inr ''{}''"
  "external_text solver_rejects_all e = e"
  "curve_String solver_rejects_all c = ''bn254''"
  "backend_String solver_rejects_all b = ''plonk''"
  by (simp_all add: solver_rejects_all_def toy_test_env_def)

lemma accepting_env_sel:
  "scalar_field solver_accepts_all c = 97"
  "test_IsSolved solver_accepts_all circ w f consts =
     (if take 1 (content w) = [2] then Some ''constraint is not satisfied''
      else if consts \<and> take 1 (content w) = [0] then Some ''constant division by zero''
      else None)"
  "ccs_IsSolved solver_accepts_all ccs wit so = None"
  "NewWitness solver_accepts_all w f = Inr (content w)"
  "schema_New solver_accepts_all circ = Inr ()"
  "ToJSON solver_accepts_all wit sc = Inr ''{}''"
  "external_text solver_accepts_all e = e"
  "curve_String solver_accepts_all c = ''bn254''"
  "backend_String solver_accepts_all b = ''plonk''"
  by (simp_all add: solver_accepts_all_def toy_test_env_def)

lemma toy_compile:
  "compile toy_test_env toy_circuit BN254 PLONK () toy_test_state
     = (Ret (Inr ''ccs''), toy_compiled_state)"
  "compile solver_rejects_all toy_circuit BN254 PLONK () toy_test_state
     = (Ret (Inr ''ccs''), toy_compiled_state)"
  "compile solver_accepts_all toy_circuit BN254 PLONK () toy_test_state
     = (Ret (Inr ''ccs''), toy_compiled_state)"
  by (simp_all add: compile_def getCircuitAddr_def newBuilder_for_def cache_key_def Let_def
        toy_test_env_def solver_rejects_all_def solver_accepts_all_def toy_circuit_def
        toy_test_state_def toy_compiled_state_def)

lemma toy_fill:
  "fill_with v (content toy_circuit) (content toy_circuit) BN254 = ([3], [v])"
  "toy_circuit\<lparr>content := [3]\<rparr> = toy_circuit"
  "content (toy_circuit\<lparr>content := xs\<rparr>) = xs"
  "compileOpts toy_config = ()"
  "solverOpts toy_config = ()"
  by (simp_all add: fill_with_def toy_circuit_def toy_config_def)

theorem fuzzer_verdict_handling_witness:
  "test_IsSolved toy_test_env toy_circuit (toy_circuit\<lparr>content := [0]\<rparr>) 97 False = None
   \<and> test_IsSolved toy_test_env toy_circuit (toy_circuit\<lparr>content := [0]\<rparr>) 97 True
       = Some ''constant division by zero''
   \<and> fuzzer toy_test_env (fill_with 0) toy_circuit toy_circuit PLONK BN254 toy_config toy_test_state
       = (FailNow ''solving circuit with values as constants vs non-constants mismatched result'',
          toy_test_state\<lparr>test_log :=
            [Log_error ''errVars'' None,
             Log_error ''errConsts'' (Some ''constant division by zero''),
             Log_text ''fuzzer witness'' ''{}'']\<rparr>)
   \<and> test_IsSolved toy_test_env toy_circuit (toy_circuit\<lparr>content := [1]\<rparr>) 97 False = None
   \<and> test_IsSolved toy_test_env toy_circuit (toy_circuit\<lparr>content := [1]\<rparr>) 97 True = None
   \<and> fuzzer toy_test_env (fill_with 1) toy_circuit toy_circuit PLONK BN254 toy_config toy_test_state
       = (Ret 1, toy_compiled_state)
   \<and> test_IsSolved toy_test_env toy_circuit (toy_circuit\<lparr>content := [2]\<rparr>) 97 False
       = Some ''constraint is not satisfied''
   \<and> test_IsSolved toy_test_env toy_circuit (toy_circuit\<lparr>content := [2]\<rparr>) 97 True
       = Some ''constraint is not satisfied''
   \<and> fuzzer toy_test_env (fill_with 2) toy_circuit toy_circuit PLONK BN254 toy_config toy_test_state
       = (Ret 0, toy_compiled_state)
   \<and> fuzzer solver_rejects_all (fill_with 1) toy_circuit toy_circuit PLONK BN254 toy_config
        toy_test_state
       = (FailNow (''plonk(bn254): rejected'' @ [CHR 0x0A] @ ''witness:{}''), toy_compiled_state)
   \<and> fuzzer solver_accepts_all (fill_with 2) toy_circuit toy_circuit PLONK BN254 toy_config
        toy_test_state
       = (FailNow (''did not error (but should have) plonk(bn254)'' @ [CHR 0x0A]
                   @ ''witness:{}''), toy_compiled_state)"
proof -
  note zero = fuzzer_verdict_handling
    [where fill = "fill_with 0" and circuit = toy_circuit and w = toy_circuit and curve = BN254
       and env = toy_test_env and b = PLONK and opt = toy_config and ts = toy_test_state,
     unfolded Let_def toy_fill fst_conv snd_conv, THEN conjunct1]
  note one = fuzzer_verdict_handling
    [where fill = "fill_with 1" and circuit = toy_circuit and w = toy_circuit and curve = BN254
       and env = toy_test_env and b = PLONK and opt = toy_config and ts = toy_test_state,
     unfolded Let_def toy_fill fst_conv snd_conv, THEN conjunct2, THEN conjunct1]
  note two = fuzzer_verdict_handling
    [where fill = "fill_with 2" and circuit = toy_circuit and w = toy_circuit and curve = BN254
       and env = toy_test_env and b = PLONK and opt = toy_config and ts = toy_test_state,
     unfolded Let_def toy_fill fst_conv snd_conv, THEN conjunct2, THEN conjunct1]
  note one_rejected = fuzzer_verdict_handling
    [where fill = "fill_with 1" and circuit = toy_circuit and w = toy_circuit and curve = BN254
       and env = solver_rejects_all and b = PLONK and opt = toy_config and ts = toy_test_state,
     unfolded Let_def toy_fill fst_conv snd_conv, THEN conjunct2, THEN conjunct1]
  note two_accepted = fuzzer_verdict_handling
    [where fill = "fill_with 2" and circuit = toy_circuit and w = toy_circuit and curve = BN254
       and env = solver_accepts_all and b = PLONK and opt = toy_config and ts = toy_test_state,
     unfolded Let_def toy_fill fst_conv snd_conv, THEN conjunct2, THEN conjunct1]
  have v: "test_IsSolved toy_test_env toy_circuit (toy_circuit\<lparr>content := [0]\<rparr>) 97 False = None"
    "test_IsSolved toy_test_env toy_circuit (toy_circuit\<lparr>content := [0]\<rparr>) 97 True
       = Some ''constant division by zero''"
    "test_IsSolved toy_test_env toy_circuit (toy_circuit\<lparr>content := [1]\<rparr>) 97 False = None"
    "test_IsSolved toy_test_env toy_circuit (toy_circuit\<lparr>content := [1]\<rparr>) 97 True = None"
    "test_IsSolved toy_test_env toy_circuit (toy_circuit\<lparr>content := [2]\<rparr>) 97 False
       = Some ''constraint is not satisfied''"
    "test_IsSolved toy_test_env toy_circuit (toy_circuit\<lparr>content := [2]\<rparr>) 97 True
       = Some ''constraint is not satisfied''"
    by (simp_all add: toy_env_sel toy_fill)
  from zero have r0:
    "fuzzer toy_test_env (fill_with 0) toy_circuit toy_circuit PLONK BN254 toy_config toy_test_state
       = (FailNow ''solving circuit with values as constants vs non-constants mismatched result'',
          toy_test_state\<lparr>test_log :=
            [Log_error ''errVars'' None,
             Log_error ''errConsts'' (Some ''constant division by zero''),
             Log_text ''fuzzer witness'' ''{}'']\<rparr>)"
    by (simp add: toy_env_sel toy_fill toy_test_state_def)
  from one have r1:
    "fuzzer toy_test_env (fill_with 1) toy_circuit toy_circuit PLONK BN254 toy_config toy_test_state
       = (Ret 1, toy_compiled_state)"
    by (simp add: toy_env_sel toy_fill toy_compile)
  from two have r2:
    "fuzzer toy_test_env (fill_with 2) toy_circuit toy_circuit PLONK BN254 toy_config toy_test_state
       = (Ret 0, toy_compiled_state)"
    by (simp add: toy_env_sel toy_fill toy_compile)
  from one_rejected have r3:
    "fuzzer solver_rejects_all (fill_with 1) toy_circuit toy_circuit PLONK BN254 toy_config
        toy_test_state
       = (FailNow (''plonk(bn254): rejected'' @ [CHR 0x0A] @ ''witness:{}''), toy_compiled_state)"
    by (simp add: rejecting_env_sel toy_fill toy_compile)
  from two_accepted have r4:
    "fuzzer solver_accepts_all (fill_with 2) toy_circuit toy_circuit PLONK BN254 toy_config
        toy_test_state
       = (FailNow (''did not error (but should have) plonk(bn254)'' @ [CHR 0x0A]
                   @ ''witness:{}''), toy_compiled_state)"
    by (simp add: accepting_env_sel toy_fill toy_compile)
  from v r0 r1 r2 r3 r4 show ?thesis by (intro conjI)
qed

text \<open>
  The claim C3 says that whenever exactly one of the two evaluations succeeds, both
  verdicts and the witness are logged before the test is aborted. Here the variable
  mode accepts and the constant mode rejects, but the witness cannot be parsed:
  \<open>fuzzer\<close> panics with that error, and the state of the test, its log included, is
  what it was.
\<close>

theorem fuzzer_mismatch_panics_without_logging:
  "test_IsSolved witness_unparsable toy_circuit (toy_circuit\<lparr>content := [0]\<rparr>) 97 False = None
   \<and> test_IsSolved witness_unparsable toy_circuit (toy_circuit\<lparr>content := [0]\<rparr>) 97 True
       = Some ''constant division by zero''
   \<and> fuzzer witness_unparsable (fill_with 0) toy_circuit toy_circuit PLONK BN254 toy_config
       toy_test_state = (PanicErr ''missing assignment'', toy_test_state)
   \<and> test_log toy_test_state = []"
  by (simp add: fuzzer_def Let_def witness_unparsable_def toy_test_env_def fill_with_def
        toy_circuit_def toy_test_state_def)

end
